theory Spec2Isabelle
  imports Main
begin

section \<open>Values shared by the whole application\<close>

text \<open>
  A UUID is represented by its canonical text, so \<open>str(uuid)\<close> is the identity on the
  representation. A \<open>date\<close> and a \<open>datetime\<close> are represented by their ISO-8601 text, which
  is what \<open>str(date)\<close> and \<open>datetime.isoformat()\<close> return. A member of one of the
  \<open>(str, Enum)\<close> classes of \<open>app/models.py\<close> is a datatype constructor; its \<open>.value\<close> is the
  string it is stored as.
\<close>

type_synonym uuid = string
type_synonym date = string
type_synonym datetime = string

definition str_uuid :: "uuid \<Rightarrow> string" where
  "str_uuid u = u"

definition str_date :: "date \<Rightarrow> string" where
  "str_date d = d"

definition isoformat :: "datetime \<Rightarrow> string" where
  "isoformat d = d"

text \<open>\<open>str(x)\<close> of an optional text: Python renders \<open>None\<close> as the text \<open>None\<close>.\<close>

definition str_opt :: "string option \<Rightarrow> string" where
  "str_opt v = (case v of None \<Rightarrow> ''None'' | Some s \<Rightarrow> s)"

text \<open>Truthiness of an optional text (\<open>if role:\<close>): \<open>None\<close> and the empty text are false.\<close>

definition truthy :: "string option \<Rightarrow> bool" where
  "truthy v = (case v of None \<Rightarrow> False | Some s \<Rightarrow> s \<noteq> [])"

subsection \<open>Enumerations of \<open>app/models.py\<close>\<close>

datatype RoleEnum = USER | INSTITUTION
datatype CountryEnum = INDIA
datatype StateEnum = MADHYA_PRADESH
datatype CityEnum = BHOPAL | INDORE
datatype GenderEnum = MALE | FEMALE
datatype DifficultyEnum = EASY | MEDIUM | HARD
datatype CorrectOptionEnum = Option_A | Option_B | Option_C | Option_D
datatype ProgrammingLanguageEnum = PYTHON | JAVASCRIPT | JAVA | CPP | C_LANG

fun RoleEnum_value :: "RoleEnum \<Rightarrow> string" where
  "RoleEnum_value USER = ''user''"
| "RoleEnum_value INSTITUTION = ''institution''"

fun CountryEnum_value :: "CountryEnum \<Rightarrow> string" where
  "CountryEnum_value INDIA = ''India''"

fun StateEnum_value :: "StateEnum \<Rightarrow> string" where
  "StateEnum_value MADHYA_PRADESH = ''Madhya Pradesh''"

fun CityEnum_value :: "CityEnum \<Rightarrow> string" where
  "CityEnum_value BHOPAL = ''Bhopal''"
| "CityEnum_value INDORE = ''Indore''"

fun GenderEnum_value :: "GenderEnum \<Rightarrow> string" where
  "GenderEnum_value MALE = ''Male''"
| "GenderEnum_value FEMALE = ''Female''"

fun DifficultyEnum_value :: "DifficultyEnum \<Rightarrow> string" where
  "DifficultyEnum_value EASY = ''easy''"
| "DifficultyEnum_value MEDIUM = ''medium''"
| "DifficultyEnum_value HARD = ''hard''"

fun CorrectOptionEnum_value :: "CorrectOptionEnum \<Rightarrow> string" where
  "CorrectOptionEnum_value Option_A = ''a''"
| "CorrectOptionEnum_value Option_B = ''b''"
| "CorrectOptionEnum_value Option_C = ''c''"
| "CorrectOptionEnum_value Option_D = ''d''"

fun ProgrammingLanguageEnum_value :: "ProgrammingLanguageEnum \<Rightarrow> string" where
  "ProgrammingLanguageEnum_value PYTHON = ''python''"
| "ProgrammingLanguageEnum_value JAVASCRIPT = ''javascript''"
| "ProgrammingLanguageEnum_value JAVA = ''java''"
| "ProgrammingLanguageEnum_value CPP = ''cpp''"
| "ProgrammingLanguageEnum_value C_LANG = ''c''"

subsection \<open>Errors\<close>

text \<open>
  \<open>HTTPException(status_code, detail)\<close> of the route layer and the plain \<open>Exception(text)\<close>
  that \<open>ProfileService.create_profile\<close> raises.
\<close>

datatype exn = HTTPException nat string | Exception string

section \<open>The rows of the store\<close>

text \<open>
  The tables and their columns are those the services read and write, the response models
  \<open>ProfileResponse\<close> and \<open>TestResponse\<close> of \<open>app/models.py\<close>, and the data model of the
  specification. A nullable column is an \<open>option\<close>; a timestamp written by the store is a
  natural number.
\<close>

record profile_row =
  p_id :: string
  p_user_id :: string
  p_full_name :: string
  p_email :: "string option"
  p_phone :: "string option"
  p_bio :: "string option"
  p_avatar_url :: "string option"
  p_date_of_birth :: "string option"
  p_gender :: "string option"
  p_address :: "string option"
  p_city :: "string option"
  p_state :: "string option"
  p_country :: "string option"
  p_role :: string
  p_is_active :: bool
  p_created_at :: nat
  p_updated_at :: nat

record test_row =
  t_id :: string
  t_title :: string
  t_description :: "string option"
  t_difficulty :: string
  t_duration_minutes :: int
  t_total_marks :: int
  t_passing_marks :: int
  t_created_by :: "string option"
  t_is_active :: bool
  t_is_published :: bool
  t_start_time :: "string option"
  t_end_time :: "string option"
  t_created_at :: nat
  t_updated_at :: nat

record question_row =
  q_id :: string
  q_test_id :: string
  q_question_type :: string
  q_question_text :: string
  q_marks :: int
  q_order_no :: int
  q_is_active :: bool
  q_created_at :: nat

record mcq_row =
  o_question_id :: string
  o_option_a :: string
  o_option_b :: string
  o_option_c :: string
  o_option_d :: string
  o_correct_option :: string
  o_explanation :: "string option"

record theory_row =
  th_question_id :: string
  th_word_limit :: int
  th_sample_answer :: "string option"
  th_keywords :: "string list option"

record TestCase =
  tc_input :: string
  tc_expected_output :: string
  tc_is_hidden :: bool

text \<open>
  The \<open>test_cases\<close> column holds the JSON text that \<open>json.dumps\<close> makes of the list of test
  cases; it is represented by the list it encodes.
\<close>

record coding_row =
  cd_question_id :: string
  cd_programming_language :: string
  cd_starter_code :: "string option"
  cd_solution_code :: "string option"
  cd_time_limit_seconds :: int
  cd_memory_limit_mb :: int
  cd_test_cases :: "TestCase list"

text \<open>
  The store: one list of rows per table, in the order the store returns them when a query
  has no \<open>order\<close>, and a counter from which the store draws the generated columns of an
  inserted row (its id and its timestamps).
\<close>

record db =
  profiles :: "profile_row list"
  tests :: "test_row list"
  questions :: "question_row list"
  mcq_options :: "mcq_row list"
  theory_details :: "theory_row list"
  coding_details :: "coding_row list"
  tick :: nat

text \<open>The id the store generates at counter value \<open>n\<close>.\<close>

definition gen_uuid :: "nat \<Rightarrow> string" where
  "gen_uuid n = ''id-'' @ replicate n (CHR ''1'')"

section \<open>The storage client\<close>

text \<open>
  The query builder \<open>client.from_(table).select(...).eq(...).order(...).range(...).execute()\<close>.
  A query carries the rows selected so far, the requested window and whether an exact count
  was asked for; \<open>execute\<close> returns the rows of the window and, when asked, the number of all
  rows that pass the filters, whatever the window. The store accepts every insert and every
  update; a write that the client answers with an exception is not part of the model.
\<close>

record 'r query =
  sel_rows :: "'r list"
  sel_range :: "(int \<times> int) option"
  sel_count :: bool

record 'r response =
  resp_data :: "'r list"
  resp_count :: "nat option"

definition select_q :: "'r list \<Rightarrow> bool \<Rightarrow> 'r query" where
  "select_q table exact = \<lparr>sel_rows = table, sel_range = None, sel_count = exact\<rparr>"

definition eq_q :: "('r \<Rightarrow> 'v) \<Rightarrow> 'v \<Rightarrow> 'r query \<Rightarrow> 'r query" where
  "eq_q col v q = q\<lparr>sel_rows := filter (\<lambda>r. col r = v) (sel_rows q)\<rparr>"

definition order_q :: "('r \<Rightarrow> 'k::linorder) \<Rightarrow> bool \<Rightarrow> 'r query \<Rightarrow> 'r query" where
  "order_q col desc q =
     q\<lparr>sel_rows := (if desc then rev (sort_key col (sel_rows q)) else sort_key col (sel_rows q))\<rparr>"

definition range_q :: "int \<Rightarrow> int \<Rightarrow> 'r query \<Rightarrow> 'r query" where
  "range_q lo hi q = q\<lparr>sel_range := Some (lo, hi)\<rparr>"

text \<open>Rows \<open>lo\<close> to \<open>hi\<close>, both included, counted from 0; an ill-formed window has no rows.\<close>

definition window :: "(int \<times> int) option \<Rightarrow> 'r list \<Rightarrow> 'r list" where
  "window w rows =
     (case w of
        None \<Rightarrow> rows
      | Some (lo, hi) \<Rightarrow>
          if 0 \<le> lo \<and> lo \<le> hi then take (nat (hi - lo + 1)) (drop (nat lo) rows) else [])"

definition execute_q :: "'r query \<Rightarrow> 'r response" where
  "execute_q q =
     \<lparr>resp_data = window (sel_range q) (sel_rows q),
      resp_count = (if sel_count q then Some (length (sel_rows q)) else None)\<rparr>"

text \<open>
  \<open>from_(table).update(data).eq(col, v).execute()\<close>: every row that passes the filter gets the
  columns of \<open>data\<close>; the response holds the rows as updated. The first component is the
  table afterwards.
\<close>

definition update_q :: "('r \<Rightarrow> 'r) \<Rightarrow> ('r \<Rightarrow> bool) \<Rightarrow> 'r list \<Rightarrow> 'r list \<times> 'r response" where
  "update_q set_cols matches table =
     (map (\<lambda>r. if matches r then set_cols r else r) table,
      \<lparr>resp_data = map set_cols (filter matches table), resp_count = None\<rparr>)"

text \<open>\<open>from_(table).insert(data).execute()\<close>: the new row goes last; the response holds it.\<close>

definition insert_q :: "'r \<Rightarrow> 'r list \<Rightarrow> 'r list \<times> 'r response" where
  "insert_q row table = (table @ [row], \<lparr>resp_data = [row], resp_count = None\<rparr>)"

text \<open>\<open>response.count if response.count else d\<close>: a missing count and a count of 0 are false.\<close>

definition count_or :: "nat option \<Rightarrow> nat \<Rightarrow> nat" where
  "count_or c d = (case c of None \<Rightarrow> d | Some n \<Rightarrow> if n \<noteq> 0 then n else d)"

text \<open>\<open>response.data[0] if response.data else None\<close>.\<close>

definition first_or_none :: "'r list \<Rightarrow> 'r option" where
  "first_or_none rows = (case rows of [] \<Rightarrow> None | r # _ \<Rightarrow> Some r)"

text \<open>A column of an updated row: the value of the key when \<open>data\<close> has it, else the old one.\<close>

definition set_col :: "'a option \<Rightarrow> 'a \<Rightarrow> 'a" where
  "set_col new old = (case new of None \<Rightarrow> old | Some v \<Rightarrow> v)"

definition set_null_col :: "'a option \<Rightarrow> 'a option \<Rightarrow> 'a option" where
  "set_null_col new old = (case new of None \<Rightarrow> old | Some v \<Rightarrow> Some v)"

section \<open>Tests: \<open>app/services/test_service.py\<close>\<close>

text \<open>
  \<open>TestUpdate\<close> of \<open>app/models.py\<close>: every field is optional. \<open>model_dump(exclude_none=True)\<close>
  leaves out the fields that are \<open>None\<close>, so the dictionary \<open>data\<close> is a record of optional
  keys, \<open>None\<close> standing for an absent key. A member of \<open>DifficultyEnum\<close> stands in it as
  its value, the string the client sends for it.
\<close>

record TestUpdate =
  tu_title :: "string option"
  tu_description :: "string option"
  tu_difficulty :: "DifficultyEnum option"
  tu_duration_minutes :: "int option"
  tu_total_marks :: "int option"
  tu_passing_marks :: "int option"
  tu_is_active :: "bool option"
  tu_is_published :: "bool option"
  tu_start_time :: "datetime option"
  tu_end_time :: "datetime option"

record test_data =
  td_title :: "string option"
  td_description :: "string option"
  td_difficulty :: "string option"
  td_duration_minutes :: "int option"
  td_total_marks :: "int option"
  td_passing_marks :: "int option"
  td_is_active :: "bool option"
  td_is_published :: "bool option"
  td_start_time :: "string option"
  td_end_time :: "string option"

definition empty_test_data :: test_data where
  "empty_test_data =
     \<lparr>td_title = None, td_description = None, td_difficulty = None,
      td_duration_minutes = None, td_total_marks = None, td_passing_marks = None,
      td_is_active = None, td_is_published = None, td_start_time = None, td_end_time = None\<rparr>"

definition TestUpdate_model_dump :: "TestUpdate \<Rightarrow> test_data" where
  "TestUpdate_model_dump u =
     \<lparr>td_title = tu_title u, td_description = tu_description u,
      td_difficulty = map_option DifficultyEnum_value (tu_difficulty u),
      td_duration_minutes = tu_duration_minutes u, td_total_marks = tu_total_marks u,
      td_passing_marks = tu_passing_marks u,
      td_is_active = tu_is_active u, td_is_published = tu_is_published u,
      td_start_time = tu_start_time u, td_end_time = tu_end_time u\<rparr>"

text \<open>What the store does to a row of \<open>tests\<close> on \<open>update(data)\<close>.\<close>

definition set_test_cols :: "test_data \<Rightarrow> test_row \<Rightarrow> test_row" where
  "set_test_cols d r =
     r\<lparr>t_title := set_col (td_title d) (t_title r),
       t_description := set_null_col (td_description d) (t_description r),
       t_difficulty := set_col (td_difficulty d) (t_difficulty r),
       t_duration_minutes := set_col (td_duration_minutes d) (t_duration_minutes r),
       t_total_marks := set_col (td_total_marks d) (t_total_marks r),
       t_passing_marks := set_col (td_passing_marks d) (t_passing_marks r),
       t_is_active := set_col (td_is_active d) (t_is_active r),
       t_is_published := set_col (td_is_published d) (t_is_published r),
       t_start_time := set_null_col (td_start_time d) (t_start_time r),
       t_end_time := set_null_col (td_end_time d) (t_end_time r)\<rparr>"

text \<open>The dictionary \<open>get_test_by_id\<close> returns: the row, and \<open>question_count\<close> when it was set.\<close>

record test_view = test_row +
  question_count :: "nat option"

text \<open>A row of \<open>tests\<close> as the store returns it: a dictionary without the key \<open>question_count\<close>.\<close>

definition test_dict :: "test_row \<Rightarrow> test_view" where
  "test_dict r = test_row.extend r \<lparr>question_count = None\<rparr>"

definition get_test_by_id :: "uuid \<Rightarrow> db \<Rightarrow> test_view option" where
  "get_test_by_id test_id db =
     (let response = execute_q (eq_q t_id (str_uuid test_id) (select_q (tests db) False))
      in case resp_data response of
           [] \<Rightarrow> None
         | test # _ \<Rightarrow>
             let q_response =
                   execute_q (eq_q q_test_id (str_uuid test_id) (select_q (questions db) True))
             in Some ((test_dict test)
                        \<lparr>question_count := Some (count_or (resp_count q_response) 0)\<rparr>))"

definition get_all_tests ::
  "int \<Rightarrow> int \<Rightarrow> bool option \<Rightarrow> string option \<Rightarrow> db \<Rightarrow> test_row list \<times> nat" where
  "get_all_tests page limit is_published created_by db =
     (let offset = (page - 1) * limit;
          query = select_q (tests db) True;
          query = (case is_published of
                     None \<Rightarrow> query
                   | Some b \<Rightarrow> eq_q t_is_published b query);
          query = (if truthy created_by then eq_q t_created_by created_by query else query);
          response = execute_q (range_q offset (offset + limit - 1)
                       (order_q t_created_at True (eq_q t_is_active True query)));
          total = count_or (resp_count response) (length (resp_data response))
      in (resp_data response, total))"

definition update_test :: "uuid \<Rightarrow> TestUpdate \<Rightarrow> db \<Rightarrow> test_view option \<times> db" where
  "update_test test_id update_data db =
     (let data = TestUpdate_model_dump update_data
      in if data = empty_test_data then (get_test_by_id test_id db, db)
         else
           let data = data\<lparr>td_start_time := map_option isoformat (td_start_time data)\<rparr>;
               data = data\<lparr>td_end_time := map_option isoformat (td_end_time data)\<rparr>;
               (table, response) =
                  update_q (set_test_cols data) (\<lambda>r. t_id r = str_uuid test_id) (tests db)
           in (map_option test_dict (first_or_none (resp_data response)),
               db\<lparr>tests := table\<rparr>))"

definition delete_test :: "uuid \<Rightarrow> db \<Rightarrow> bool \<times> db" where
  "delete_test test_id db =
     (let (table, response) =
            update_q (set_test_cols (empty_test_data\<lparr>td_is_active := Some False\<rparr>))
              (\<lambda>r. t_id r = str_uuid test_id) (tests db)
      in (length (resp_data response) > 0, db\<lparr>tests := table\<rparr>))"

definition publish_test :: "uuid \<Rightarrow> db \<Rightarrow> test_view option \<times> db" where
  "publish_test test_id db =
     (let (table, response) =
            update_q (set_test_cols (empty_test_data\<lparr>td_is_published := Some True\<rparr>))
              (\<lambda>r. t_id r = str_uuid test_id) (tests db)
      in (map_option test_dict (first_or_none (resp_data response)), db\<lparr>tests := table\<rparr>))"

definition unpublish_test :: "uuid \<Rightarrow> db \<Rightarrow> test_view option \<times> db" where
  "unpublish_test test_id db =
     (let (table, response) =
            update_q (set_test_cols (empty_test_data\<lparr>td_is_published := Some False\<rparr>))
              (\<lambda>r. t_id r = str_uuid test_id) (tests db)
      in (map_option test_dict (first_or_none (resp_data response)), db\<lparr>tests := table\<rparr>))"

section \<open>Profiles: \<open>app/services/profile_service.py\<close>\<close>

record ProfileCreate =
  pc_user_id :: uuid
  pc_full_name :: string
  pc_email :: string
  pc_phone :: "string option"
  pc_bio :: "string option"
  pc_date_of_birth :: date
  pc_avatar_url :: "string option"
  pc_gender :: "GenderEnum option"
  pc_city :: "CityEnum option"
  pc_state :: StateEnum
  pc_country :: CountryEnum
  pc_role :: RoleEnum

record ProfileUpdate =
  pu_full_name :: "string option"
  pu_phone :: "string option"
  pu_bio :: "string option"
  pu_avatar_url :: "string option"
  pu_date_of_birth :: "date option"
  pu_gender :: "GenderEnum option"
  pu_address :: "string option"
  pu_city :: "CityEnum option"
  pu_state :: "StateEnum option"
  pu_country :: "CountryEnum option"
  pu_is_active :: "bool option"
  pu_role :: "RoleEnum option"

text \<open>
  The dictionary \<open>data\<close> of the profile service, \<open>None\<close> standing for an absent key. A member
  of an enumeration stands in it as its value, the string it is equal to.
\<close>

record profile_data =
  pd_user_id :: "string option"
  pd_full_name :: "string option"
  pd_email :: "string option"
  pd_phone :: "string option"
  pd_bio :: "string option"
  pd_date_of_birth :: "string option"
  pd_avatar_url :: "string option"
  pd_gender :: "string option"
  pd_address :: "string option"
  pd_city :: "string option"
  pd_state :: "string option"
  pd_country :: "string option"
  pd_is_active :: "bool option"
  pd_role :: "string option"

definition empty_profile_data :: profile_data where
  "empty_profile_data =
     \<lparr>pd_user_id = None, pd_full_name = None, pd_email = None, pd_phone = None,
      pd_bio = None, pd_date_of_birth = None, pd_avatar_url = None, pd_gender = None,
      pd_address = None, pd_city = None, pd_state = None, pd_country = None,
      pd_is_active = None, pd_role = None\<rparr>"

definition ProfileCreate_model_dump :: "ProfileCreate \<Rightarrow> profile_data" where
  "ProfileCreate_model_dump p =
     \<lparr>pd_user_id = Some (pc_user_id p), pd_full_name = Some (pc_full_name p),
      pd_email = Some (pc_email p), pd_phone = pc_phone p, pd_bio = pc_bio p,
      pd_date_of_birth = Some (pc_date_of_birth p), pd_avatar_url = pc_avatar_url p,
      pd_gender = map_option GenderEnum_value (pc_gender p), pd_address = None,
      pd_city = map_option CityEnum_value (pc_city p),
      pd_state = Some (StateEnum_value (pc_state p)),
      pd_country = Some (CountryEnum_value (pc_country p)),
      pd_is_active = None, pd_role = Some (RoleEnum_value (pc_role p))\<rparr>"

definition ProfileUpdate_model_dump :: "ProfileUpdate \<Rightarrow> profile_data" where
  "ProfileUpdate_model_dump u =
     \<lparr>pd_user_id = None, pd_full_name = pu_full_name u, pd_email = None,
      pd_phone = pu_phone u, pd_bio = pu_bio u, pd_date_of_birth = pu_date_of_birth u,
      pd_avatar_url = pu_avatar_url u,
      pd_gender = map_option GenderEnum_value (pu_gender u), pd_address = pu_address u,
      pd_city = map_option CityEnum_value (pu_city u),
      pd_state = map_option StateEnum_value (pu_state u),
      pd_country = map_option CountryEnum_value (pu_country u),
      pd_is_active = pu_is_active u, pd_role = map_option RoleEnum_value (pu_role u)\<rparr>"

text \<open>
  \<open>_convert_enums\<close>: a member is replaced by its value, which is the string that already
  stands for it; a date of birth that is present is replaced by its text.
\<close>

definition convert_enums :: "profile_data \<Rightarrow> profile_data" where
  "convert_enums d = d\<lparr>pd_date_of_birth := map_option str_date (pd_date_of_birth d)\<rparr>"

definition set_profile_cols :: "profile_data \<Rightarrow> profile_row \<Rightarrow> profile_row" where
  "set_profile_cols d r =
     r\<lparr>p_user_id := set_col (pd_user_id d) (p_user_id r),
       p_full_name := set_col (pd_full_name d) (p_full_name r),
       p_email := set_null_col (pd_email d) (p_email r),
       p_phone := set_null_col (pd_phone d) (p_phone r),
       p_bio := set_null_col (pd_bio d) (p_bio r),
       p_date_of_birth := set_null_col (pd_date_of_birth d) (p_date_of_birth r),
       p_avatar_url := set_null_col (pd_avatar_url d) (p_avatar_url r),
       p_gender := set_null_col (pd_gender d) (p_gender r),
       p_address := set_null_col (pd_address d) (p_address r),
       p_city := set_null_col (pd_city d) (p_city r),
       p_state := set_null_col (pd_state d) (p_state r),
       p_country := set_null_col (pd_country d) (p_country r),
       p_is_active := set_col (pd_is_active d) (p_is_active r),
       p_role := set_col (pd_role d) (p_role r)\<rparr>"

text \<open>
  The row the store makes of an inserted dictionary: the generated id and timestamps, the
  column defaults (a profile is active), and the columns of the dictionary over them.
\<close>

definition new_profile_row :: "profile_data \<Rightarrow> nat \<Rightarrow> profile_row" where
  "new_profile_row d n =
     set_profile_cols d
       \<lparr>p_id = gen_uuid n, p_user_id = [], p_full_name = [], p_email = None, p_phone = None,
        p_bio = None, p_avatar_url = None, p_date_of_birth = None, p_gender = None,
        p_address = None, p_city = None, p_state = None, p_country = None,
        p_role = RoleEnum_value USER, p_is_active = True, p_created_at = n,
        p_updated_at = n\<rparr>"

definition create_profile ::
  "ProfileCreate \<Rightarrow> uuid \<Rightarrow> db \<Rightarrow> (exn + profile_row option) \<times> db" where
  "create_profile profile_data user_id db =
     (let existing = execute_q (eq_q p_user_id (str_uuid user_id) (select_q (profiles db) False))
      in if resp_data existing \<noteq> []
         then (Inl (Exception ''Profile already exists for this user''), db)
         else
           let data = ProfileCreate_model_dump profile_data;
               data = convert_enums data;
               data = data\<lparr>pd_user_id := Some (str_uuid user_id)\<rparr>;
               (table, res) = insert_q (new_profile_row data (tick db)) (profiles db)
           in (Inr (first_or_none (resp_data res)),
               db\<lparr>profiles := table, tick := Suc (tick db)\<rparr>))"

definition get_profile_by_user_id :: "uuid \<Rightarrow> db \<Rightarrow> profile_row option" where
  "get_profile_by_user_id user_id db =
     (let res = execute_q (eq_q p_user_id (str_uuid user_id) (select_q (profiles db) False))
      in first_or_none (resp_data res))"

definition get_all_profiles ::
  "int \<Rightarrow> int \<Rightarrow> bool option \<Rightarrow> string option \<Rightarrow> string option \<Rightarrow> string option \<Rightarrow> db
     \<Rightarrow> profile_row list \<times> nat" where
  "get_all_profiles page limit is_active role city gender db =
     (let offset = (page - 1) * limit;
          query = select_q (profiles db) True;
          query = (case is_active of
                     None \<Rightarrow> query
                   | Some b \<Rightarrow> eq_q p_is_active b query);
          query = (if truthy role then eq_q (\<lambda>r. Some (p_role r)) role query else query);
          query = (if truthy city then eq_q p_city city query else query);
          query = (if truthy gender then eq_q p_gender gender query else query);
          res = execute_q (range_q offset (offset + limit - 1)
                  (order_q p_created_at True query));
          total = count_or (resp_count res) (length (resp_data res))
      in (resp_data res, total))"

definition update_profile :: "uuid \<Rightarrow> ProfileUpdate \<Rightarrow> db \<Rightarrow> profile_row option \<times> db" where
  "update_profile user_id update_data db =
     (let data = ProfileUpdate_model_dump update_data
      in if data = empty_profile_data then (get_profile_by_user_id user_id db, db)
         else
           let data = convert_enums data;
               (table, res) =
                  update_q (set_profile_cols data) (\<lambda>r. p_user_id r = str_uuid user_id)
                    (profiles db)
           in (first_or_none (resp_data res), db\<lparr>profiles := table\<rparr>))"

definition delete_profile :: "uuid \<Rightarrow> db \<Rightarrow> bool \<times> db" where
  "delete_profile user_id db =
     (let (table, res) =
            update_q (set_profile_cols (empty_profile_data\<lparr>pd_is_active := Some False\<rparr>))
              (\<lambda>r. p_user_id r = str_uuid user_id) (profiles db)
      in (length (resp_data res) > 0, db\<lparr>profiles := table\<rparr>))"

definition get_users :: "int \<Rightarrow> int \<Rightarrow> db \<Rightarrow> profile_row list \<times> nat" where
  "get_users page limit db = get_all_profiles page limit None (Some ''user'') None None db"

definition get_institutions :: "int \<Rightarrow> int \<Rightarrow> db \<Rightarrow> profile_row list \<times> nat" where
  "get_institutions page limit db =
     get_all_profiles page limit None (Some ''institution'') None None db"

section \<open>Questions: \<open>app/services/question_service.py\<close>\<close>

record MCQOptionCreate =
  oc_option_a :: string
  oc_option_b :: string
  oc_option_c :: string
  oc_option_d :: string
  oc_correct_option :: CorrectOptionEnum
  oc_explanation :: "string option"

record MCQQuestionCreate =
  mq_test_id :: uuid
  mq_question_text :: string
  mq_marks :: int
  mq_order_no :: int
  mq_options :: MCQOptionCreate

record MCQOptionUpdate =
  ou_option_a :: "string option"
  ou_option_b :: "string option"
  ou_option_c :: "string option"
  ou_option_d :: "string option"
  ou_correct_option :: "CorrectOptionEnum option"
  ou_explanation :: "string option"

record TheoryDetailsUpdate =
  tdu_word_limit :: "int option"
  tdu_sample_answer :: "string option"
  tdu_keywords :: "string list option"

record CodingDetailsUpdate =
  cdu_programming_language :: "ProgrammingLanguageEnum option"
  cdu_starter_code :: "string option"
  cdu_solution_code :: "string option"
  cdu_time_limit_seconds :: "int option"
  cdu_memory_limit_mb :: "int option"
  cdu_test_cases :: "TestCase list option"

record QuestionUpdate =
  qu_question_text :: "string option"
  qu_marks :: "int option"
  qu_order_no :: "int option"
  qu_is_active :: "bool option"

text \<open>The dictionaries the question service sends to the store, one per table.\<close>

record question_data =
  qd_test_id :: "string option"
  qd_question_type :: "string option"
  qd_question_text :: "string option"
  qd_marks :: "int option"
  qd_order_no :: "int option"
  qd_is_active :: "bool option"

record mcq_data =
  od_option_a :: "string option"
  od_option_b :: "string option"
  od_option_c :: "string option"
  od_option_d :: "string option"
  od_correct_option :: "string option"
  od_explanation :: "string option"

record coding_data =
  cdd_programming_language :: "string option"
  cdd_starter_code :: "string option"
  cdd_solution_code :: "string option"
  cdd_time_limit_seconds :: "int option"
  cdd_memory_limit_mb :: "int option"
  cdd_test_cases :: "TestCase list option"

definition empty_question_data :: question_data where
  "empty_question_data =
     \<lparr>qd_test_id = None, qd_question_type = None, qd_question_text = None, qd_marks = None,
      qd_order_no = None, qd_is_active = None\<rparr>"

definition empty_mcq_data :: mcq_data where
  "empty_mcq_data =
     \<lparr>od_option_a = None, od_option_b = None, od_option_c = None, od_option_d = None,
      od_correct_option = None, od_explanation = None\<rparr>"

definition empty_theory_data :: TheoryDetailsUpdate where
  "empty_theory_data = \<lparr>tdu_word_limit = None, tdu_sample_answer = None, tdu_keywords = None\<rparr>"

definition empty_coding_data :: coding_data where
  "empty_coding_data =
     \<lparr>cdd_programming_language = None, cdd_starter_code = None, cdd_solution_code = None,
      cdd_time_limit_seconds = None, cdd_memory_limit_mb = None, cdd_test_cases = None\<rparr>"

definition QuestionUpdate_model_dump :: "QuestionUpdate \<Rightarrow> question_data" where
  "QuestionUpdate_model_dump u =
     \<lparr>qd_test_id = None, qd_question_type = None, qd_question_text = qu_question_text u,
      qd_marks = qu_marks u, qd_order_no = qu_order_no u, qd_is_active = qu_is_active u\<rparr>"

definition MCQOptionUpdate_model_dump :: "MCQOptionUpdate \<Rightarrow> mcq_data" where
  "MCQOptionUpdate_model_dump u =
     \<lparr>od_option_a = ou_option_a u, od_option_b = ou_option_b u, od_option_c = ou_option_c u,
      od_option_d = ou_option_d u,
      od_correct_option = map_option CorrectOptionEnum_value (ou_correct_option u),
      od_explanation = ou_explanation u\<rparr>"

text \<open>No value of a \<open>TheoryDetailsUpdate\<close> needs converting: its dump has its own fields.\<close>

definition TheoryDetailsUpdate_model_dump :: "TheoryDetailsUpdate \<Rightarrow> TheoryDetailsUpdate" where
  "TheoryDetailsUpdate_model_dump u = u"

definition CodingDetailsUpdate_model_dump :: "CodingDetailsUpdate \<Rightarrow> coding_data" where
  "CodingDetailsUpdate_model_dump u =
     \<lparr>cdd_programming_language =
        map_option ProgrammingLanguageEnum_value (cdu_programming_language u),
      cdd_starter_code = cdu_starter_code u, cdd_solution_code = cdu_solution_code u,
      cdd_time_limit_seconds = cdu_time_limit_seconds u,
      cdd_memory_limit_mb = cdu_memory_limit_mb u, cdd_test_cases = cdu_test_cases u\<rparr>"

definition set_question_cols :: "question_data \<Rightarrow> question_row \<Rightarrow> question_row" where
  "set_question_cols d r =
     r\<lparr>q_test_id := set_col (qd_test_id d) (q_test_id r),
       q_question_type := set_col (qd_question_type d) (q_question_type r),
       q_question_text := set_col (qd_question_text d) (q_question_text r),
       q_marks := set_col (qd_marks d) (q_marks r),
       q_order_no := set_col (qd_order_no d) (q_order_no r),
       q_is_active := set_col (qd_is_active d) (q_is_active r)\<rparr>"

definition set_mcq_cols :: "mcq_data \<Rightarrow> mcq_row \<Rightarrow> mcq_row" where
  "set_mcq_cols d r =
     r\<lparr>o_option_a := set_col (od_option_a d) (o_option_a r),
       o_option_b := set_col (od_option_b d) (o_option_b r),
       o_option_c := set_col (od_option_c d) (o_option_c r),
       o_option_d := set_col (od_option_d d) (o_option_d r),
       o_correct_option := set_col (od_correct_option d) (o_correct_option r),
       o_explanation := set_null_col (od_explanation d) (o_explanation r)\<rparr>"

definition set_theory_cols :: "TheoryDetailsUpdate \<Rightarrow> theory_row \<Rightarrow> theory_row" where
  "set_theory_cols d r =
     r\<lparr>th_word_limit := set_col (tdu_word_limit d) (th_word_limit r),
       th_sample_answer := set_null_col (tdu_sample_answer d) (th_sample_answer r),
       th_keywords := set_null_col (tdu_keywords d) (th_keywords r)\<rparr>"

definition set_coding_cols :: "coding_data \<Rightarrow> coding_row \<Rightarrow> coding_row" where
  "set_coding_cols d r =
     r\<lparr>cd_programming_language :=
         set_col (cdd_programming_language d) (cd_programming_language r),
       cd_starter_code := set_null_col (cdd_starter_code d) (cd_starter_code r),
       cd_solution_code := set_null_col (cdd_solution_code d) (cd_solution_code r),
       cd_time_limit_seconds := set_col (cdd_time_limit_seconds d) (cd_time_limit_seconds r),
       cd_memory_limit_mb := set_col (cdd_memory_limit_mb d) (cd_memory_limit_mb r),
       cd_test_cases := set_col (cdd_test_cases d) (cd_test_cases r)\<rparr>"

text \<open>
  The row the store makes of an inserted question: the generated id and timestamp, the
  column default (a question is active), and the columns of the dictionary over them.
\<close>

definition new_question_row :: "question_data \<Rightarrow> nat \<Rightarrow> question_row" where
  "new_question_row d n =
     set_question_cols d
       \<lparr>q_id = gen_uuid n, q_test_id = [], q_question_type = [], q_question_text = [],
        q_marks = 1, q_order_no = 1, q_is_active = True, q_created_at = n\<rparr>"

text \<open>
  The dictionary of a question as the service returns it: the row, the key \<open>options\<close> of an
  MCQ question and the key \<open>details\<close> of a theory or coding question, when they were set.
\<close>

datatype details = TheoryDetails theory_row | CodingDetails coding_row

record question_view = question_row +
  options :: "mcq_row option"
  details :: "details option"

definition question_dict :: "question_row \<Rightarrow> question_view" where
  "question_dict r = question_row.extend r \<lparr>options = None, details = None\<rparr>"

definition create_mcq_question :: "MCQQuestionCreate \<Rightarrow> db \<Rightarrow> question_view option \<times> db" where
  "create_mcq_question question_data db =
     (let q_data =
            \<lparr>qd_test_id = Some (str_uuid (mq_test_id question_data)),
             qd_question_type = Some ''mcq'',
             qd_question_text = Some (mq_question_text question_data),
             qd_marks = Some (mq_marks question_data),
             qd_order_no = Some (mq_order_no question_data),
             qd_is_active = None\<rparr>;
          (q_table, q_response) = insert_q (new_question_row q_data (tick db)) (questions db);
          db = db\<lparr>questions := q_table, tick := Suc (tick db)\<rparr>
      in case resp_data q_response of
           [] \<Rightarrow> (None, db)
         | question # _ \<Rightarrow>
             let opt_data =
                   \<lparr>o_question_id = q_id question,
                    o_option_a = oc_option_a (mq_options question_data),
                    o_option_b = oc_option_b (mq_options question_data),
                    o_option_c = oc_option_c (mq_options question_data),
                    o_option_d = oc_option_d (mq_options question_data),
                    o_correct_option =
                      CorrectOptionEnum_value (oc_correct_option (mq_options question_data)),
                    o_explanation = oc_explanation (mq_options question_data)\<rparr>;
                 (o_table, opt_response) = insert_q opt_data (mcq_options db);
                 db = db\<lparr>mcq_options := o_table\<rparr>
             in (Some (case resp_data opt_response of
                         [] \<Rightarrow> question_dict question
                       | opt # _ \<Rightarrow> (question_dict question)\<lparr>options := Some opt\<rparr>),
                 db))"

text \<open>
  The type dispatch that \<open>get_question_by_id\<close> and the loop of \<open>get_questions_by_test\<close> both
  write out: fetch the detail row of the question's type by \<open>question_id\<close> and nest it.
\<close>

definition with_details :: "string \<Rightarrow> question_row \<Rightarrow> db \<Rightarrow> question_view" where
  "with_details question_id question db =
     (if q_question_type question = ''mcq'' then
        (let opt_response =
               execute_q (eq_q o_question_id question_id (select_q (mcq_options db) False))
         in case resp_data opt_response of
              [] \<Rightarrow> question_dict question
            | opt # _ \<Rightarrow> (question_dict question)\<lparr>options := Some opt\<rparr>)
      else if q_question_type question = ''theory'' then
        (let detail_response =
               execute_q (eq_q th_question_id question_id (select_q (theory_details db) False))
         in case resp_data detail_response of
              [] \<Rightarrow> question_dict question
            | det # _ \<Rightarrow> (question_dict question)\<lparr>details := Some (TheoryDetails det)\<rparr>)
      else if q_question_type question = ''coding'' then
        (let detail_response =
               execute_q (eq_q cd_question_id question_id (select_q (coding_details db) False))
         in case resp_data detail_response of
              [] \<Rightarrow> question_dict question
            | det # _ \<Rightarrow> (question_dict question)\<lparr>details := Some (CodingDetails det)\<rparr>)
      else question_dict question)"

definition get_question_by_id :: "uuid \<Rightarrow> db \<Rightarrow> question_view option" where
  "get_question_by_id question_id db =
     (let q_response = execute_q (eq_q q_id (str_uuid question_id) (select_q (questions db) False))
      in case resp_data q_response of
           [] \<Rightarrow> None
         | question # _ \<Rightarrow> Some (with_details (str_uuid question_id) question db))"

definition get_questions_by_test :: "uuid \<Rightarrow> string option \<Rightarrow> db \<Rightarrow> question_view list" where
  "get_questions_by_test test_id question_type db =
     (let query = eq_q q_is_active True
                    (eq_q q_test_id (str_uuid test_id) (select_q (questions db) False));
          query = (if truthy question_type
                   then eq_q (\<lambda>r. Some (q_question_type r)) question_type query else query);
          response = execute_q (order_q q_order_no False query);
          questions = resp_data response
      in map (\<lambda>q. with_details (q_id q) q db) questions)"

definition update_question :: "uuid \<Rightarrow> QuestionUpdate \<Rightarrow> db \<Rightarrow> question_view option \<times> db" where
  "update_question question_id update_data db =
     (let data = QuestionUpdate_model_dump update_data
      in if data = empty_question_data then (get_question_by_id question_id db, db)
         else
           let (table, response) =
                  update_q (set_question_cols data) (\<lambda>r. q_id r = str_uuid question_id)
                    (questions db);
               db = db\<lparr>questions := table\<rparr>
           in (if resp_data response \<noteq> [] then get_question_by_id question_id db else None,
               db))"

definition update_mcq_options ::
  "uuid \<Rightarrow> MCQOptionUpdate \<Rightarrow> db \<Rightarrow> question_view option \<times> db" where
  "update_mcq_options question_id update_data db =
     (let data = MCQOptionUpdate_model_dump update_data;
          db = (if data \<noteq> empty_mcq_data
                then db\<lparr>mcq_options :=
                        fst (update_q (set_mcq_cols data)
                               (\<lambda>r. o_question_id r = str_uuid question_id) (mcq_options db))\<rparr>
                else db)
      in (get_question_by_id question_id db, db))"

definition update_theory_details ::
  "uuid \<Rightarrow> TheoryDetailsUpdate \<Rightarrow> db \<Rightarrow> question_view option \<times> db" where
  "update_theory_details question_id update_data db =
     (let data = TheoryDetailsUpdate_model_dump update_data;
          db = (if data \<noteq> empty_theory_data
                then db\<lparr>theory_details :=
                        fst (update_q (set_theory_cols data)
                               (\<lambda>r. th_question_id r = str_uuid question_id)
                               (theory_details db))\<rparr>
                else db)
      in (get_question_by_id question_id db, db))"

definition update_coding_details ::
  "uuid \<Rightarrow> CodingDetailsUpdate \<Rightarrow> db \<Rightarrow> question_view option \<times> db" where
  "update_coding_details question_id update_data db =
     (let data = CodingDetailsUpdate_model_dump update_data;
          db = (if data \<noteq> empty_coding_data
                then db\<lparr>coding_details :=
                        fst (update_q (set_coding_cols data)
                               (\<lambda>r. cd_question_id r = str_uuid question_id)
                               (coding_details db))\<rparr>
                else db)
      in (get_question_by_id question_id db, db))"

definition delete_question :: "uuid \<Rightarrow> db \<Rightarrow> bool \<times> db" where
  "delete_question question_id db =
     (let (table, response) =
            update_q (set_question_cols (empty_question_data\<lparr>qd_is_active := Some False\<rparr>))
              (\<lambda>r. q_id r = str_uuid question_id) (questions db)
      in (length (resp_data response) > 0, db\<lparr>questions := table\<rparr>))"

section \<open>The route layer: \<open>app/routes\<close>\<close>

text \<open>The principal a bearer token resolves to: the dictionary \<open>current_user\<close>.\<close>

record principal =
  u_id :: string
  u_role :: string

text \<open>
  Modelled from the spec: \<open>require_role\<close> of \<open>app/auth/dependencies.py\<close>, which is not among
  the sources. A role-gated endpoint returns Forbidden (403) if the role of the principal does
  not match, and hands the principal to the handler if it does.
\<close>

definition require_role :: "string \<Rightarrow> principal \<Rightarrow> exn + principal" where
  "require_role role current_user =
     (if u_role current_user = role then Inr current_user
      else Inl (HTTPException 403 ''Forbidden''))"

text \<open>The \<open>data\<close> of a response envelope.\<close>

datatype payload =
    ProfileData profile_row
  | TestData test_view
  | QuestionData question_view
  | DeletedId string

record APIResponse =
  success :: bool
  message :: string
  api_data :: "payload option"

subsection \<open>\<open>app/routes/profile.py\<close>\<close>

definition route_create_profile ::
  "ProfileCreate \<Rightarrow> principal \<Rightarrow> db \<Rightarrow> (exn + APIResponse) \<times> db" where
  "route_create_profile profile current_user db =
     (case get_profile_by_user_id (u_id current_user) db of
        Some existing \<Rightarrow> (Inl (HTTPException 400 ''Profile already exists for this user''), db)
      | None \<Rightarrow>
          (case create_profile profile (u_id current_user) db of
             (Inl e, db) \<Rightarrow> (Inl e, db)
           | (Inr None, db) \<Rightarrow> (Inl (HTTPException 500 ''Failed to create profile''), db)
           | (Inr (Some new_profile), db) \<Rightarrow>
               (Inr \<lparr>success = True, message = ''Profile created successfully'',
                     api_data = Some (ProfileData new_profile)\<rparr>, db)))"

subsection \<open>\<open>app/routes/test.py\<close>\<close>

definition route_get_test :: "uuid \<Rightarrow> db \<Rightarrow> exn + APIResponse" where
  "route_get_test test_id db =
     (case get_test_by_id test_id db of
        None \<Rightarrow> Inl (HTTPException 404 ''Test not found!'')
      | Some test \<Rightarrow>
          Inr \<lparr>success = True, message = ''Test found!'', api_data = Some (TestData test)\<rparr>)"

definition route_update_test ::
  "uuid \<Rightarrow> TestUpdate \<Rightarrow> principal \<Rightarrow> db \<Rightarrow> (exn + APIResponse) \<times> db" where
  "route_update_test test_id test_update user db =
     (case require_role ''institution'' user of
        Inl e \<Rightarrow> (Inl e, db)
      | Inr current_user \<Rightarrow>
          (case get_test_by_id test_id db of
             None \<Rightarrow> (Inl (HTTPException 404 ''Test not found!''), db)
           | Some existing \<Rightarrow>
               if str_opt (t_created_by existing) \<noteq> u_id current_user
               then (Inl (HTTPException 403 ''Not authorized to update this test''), db)
               else
                 let (updated, db) = update_test test_id test_update db
                 in (Inr \<lparr>success = True, message = ''Test updated!'',
                          api_data = map_option TestData updated\<rparr>, db)))"

definition route_publish_test :: "uuid \<Rightarrow> principal \<Rightarrow> db \<Rightarrow> (exn + APIResponse) \<times> db" where
  "route_publish_test test_id user db =
     (case require_role ''institution'' user of
        Inl e \<Rightarrow> (Inl e, db)
      | Inr current_user \<Rightarrow>
          (case get_test_by_id test_id db of
             None \<Rightarrow> (Inl (HTTPException 404 ''Test not found!''), db)
           | Some existing \<Rightarrow>
               if str_opt (t_created_by existing) \<noteq> u_id current_user
               then (Inl (HTTPException 403 ''Not authorized''), db)
               else
                 let (updated, db) = publish_test test_id db
                 in (Inr \<lparr>success = True, message = ''Test published!'',
                          api_data = map_option TestData updated\<rparr>, db)))"

definition route_unpublish_test :: "uuid \<Rightarrow> principal \<Rightarrow> db \<Rightarrow> (exn + APIResponse) \<times> db" where
  "route_unpublish_test test_id user db =
     (case require_role ''institution'' user of
        Inl e \<Rightarrow> (Inl e, db)
      | Inr current_user \<Rightarrow>
          (case get_test_by_id test_id db of
             None \<Rightarrow> (Inl (HTTPException 404 ''Test not found!''), db)
           | Some existing \<Rightarrow>
               if str_opt (t_created_by existing) \<noteq> u_id current_user
               then (Inl (HTTPException 403 ''Not authorized''), db)
               else
                 let (updated, db) = unpublish_test test_id db
                 in (Inr \<lparr>success = True, message = ''Test unpublished!'',
                          api_data = map_option TestData updated\<rparr>, db)))"

definition route_delete_test :: "uuid \<Rightarrow> principal \<Rightarrow> db \<Rightarrow> (exn + APIResponse) \<times> db" where
  "route_delete_test test_id user db =
     (case require_role ''institution'' user of
        Inl e \<Rightarrow> (Inl e, db)
      | Inr current_user \<Rightarrow>
          (case get_test_by_id test_id db of
             None \<Rightarrow> (Inl (HTTPException 404 ''Test not found!''), db)
           | Some existing \<Rightarrow>
               if str_opt (t_created_by existing) \<noteq> u_id current_user
               then (Inl (HTTPException 403 ''Not authorized''), db)
               else
                 let (deleted, db) = delete_test test_id db
                 in if \<not> deleted then (Inl (HTTPException 500 ''Failed to delete''), db)
                    else (Inr \<lparr>success = True, message = ''Test deleted!'',
                               api_data = Some (DeletedId (str_uuid test_id))\<rparr>, db)))"

subsection \<open>\<open>app/routes/question.py\<close>\<close>

definition route_update_question ::
  "uuid \<Rightarrow> QuestionUpdate \<Rightarrow> principal \<Rightarrow> db \<Rightarrow> (exn + APIResponse) \<times> db" where
  "route_update_question question_id update_data user db =
     (case require_role ''institution'' user of
        Inl e \<Rightarrow> (Inl e, db)
      | Inr current_user \<Rightarrow>
          (case get_question_by_id question_id db of
             None \<Rightarrow> (Inl (HTTPException 404 ''Question not found!''), db)
           | Some question \<Rightarrow>
               let (updated, db) = update_question question_id update_data db
               in (Inr \<lparr>success = True, message = ''Question updated!'',
                        api_data = map_option QuestionData updated\<rparr>, db)))"

definition route_update_mcq_options ::
  "uuid \<Rightarrow> MCQOptionUpdate \<Rightarrow> principal \<Rightarrow> db \<Rightarrow> (exn + APIResponse) \<times> db" where
  "route_update_mcq_options question_id update_data user db =
     (case require_role ''institution'' user of
        Inl e \<Rightarrow> (Inl e, db)
      | Inr current_user \<Rightarrow>
          (case get_question_by_id question_id db of
             None \<Rightarrow> (Inl (HTTPException 404 ''Question not found!''), db)
           | Some question \<Rightarrow>
               if q_question_type question \<noteq> ''mcq''
               then (Inl (HTTPException 400 ''Not an MCQ question!''), db)
               else
                 let (updated, db) = update_mcq_options question_id update_data db
                 in (Inr \<lparr>success = True, message = ''MCQ options updated!'',
                          api_data = map_option QuestionData updated\<rparr>, db)))"

definition route_update_theory_details ::
  "uuid \<Rightarrow> TheoryDetailsUpdate \<Rightarrow> principal \<Rightarrow> db \<Rightarrow> (exn + APIResponse) \<times> db" where
  "route_update_theory_details question_id update_data user db =
     (case require_role ''institution'' user of
        Inl e \<Rightarrow> (Inl e, db)
      | Inr current_user \<Rightarrow>
          (case get_question_by_id question_id db of
             None \<Rightarrow> (Inl (HTTPException 404 ''Question not found!''), db)
           | Some question \<Rightarrow>
               if q_question_type question \<noteq> ''theory''
               then (Inl (HTTPException 400 ''Not a theory question!''), db)
               else
                 let (updated, db) = update_theory_details question_id update_data db
                 in (Inr \<lparr>success = True, message = ''Theory details updated!'',
                          api_data = map_option QuestionData updated\<rparr>, db)))"

definition route_update_coding_details ::
  "uuid \<Rightarrow> CodingDetailsUpdate \<Rightarrow> principal \<Rightarrow> db \<Rightarrow> (exn + APIResponse) \<times> db" where
  "route_update_coding_details question_id update_data user db =
     (case require_role ''institution'' user of
        Inl e \<Rightarrow> (Inl e, db)
      | Inr current_user \<Rightarrow>
          (case get_question_by_id question_id db of
             None \<Rightarrow> (Inl (HTTPException 404 ''Question not found!''), db)
           | Some question \<Rightarrow>
               if q_question_type question \<noteq> ''coding''
               then (Inl (HTTPException 400 ''Not a coding question!''), db)
               else
                 let (updated, db) = update_coding_details question_id update_data db
                 in (Inr \<lparr>success = True, message = ''Coding details updated!'',
                          api_data = map_option QuestionData updated\<rparr>, db)))"

definition route_delete_question :: "uuid \<Rightarrow> principal \<Rightarrow> db \<Rightarrow> (exn + APIResponse) \<times> db" where
  "route_delete_question question_id user db =
     (case require_role ''institution'' user of
        Inl e \<Rightarrow> (Inl e, db)
      | Inr current_user \<Rightarrow>
          (case get_question_by_id question_id db of
             None \<Rightarrow> (Inl (HTTPException 404 ''Question not found!''), db)
           | Some question \<Rightarrow>
               let (deleted, db) = delete_question question_id db
               in if \<not> deleted then (Inl (HTTPException 500 ''Failed to delete''), db)
                  else (Inr \<lparr>success = True, message = ''Question deleted!'',
                             api_data = Some (DeletedId (str_uuid question_id))\<rparr>, db)))"

section \<open>A small store for the examples\<close>

definition example_profile :: profile_row where
  "example_profile =
     \<lparr>p_id = ''p1'', p_user_id = ''user-1'', p_full_name = ''Rahul Sharma'',
      p_email = Some ''rahul@example.com'', p_phone = None, p_bio = None, p_avatar_url = None,
      p_date_of_birth = Some ''2000-05-15'', p_gender = Some ''Male'', p_address = None,
      p_city = Some ''Bhopal'', p_state = Some ''Madhya Pradesh'', p_country = Some ''India'',
      p_role = ''user'', p_is_active = False, p_created_at = 1, p_updated_at = 1\<rparr>"

definition example_test :: test_row where
  "example_test =
     \<lparr>t_id = ''t1'', t_title = ''Python basics'', t_description = None,
      t_difficulty = ''hard'', t_duration_minutes = 90, t_total_marks = 100,
      t_passing_marks = 40, t_created_by = Some ''inst-a'', t_is_active = False,
      t_is_published = False, t_start_time = None, t_end_time = None, t_created_at = 2,
      t_updated_at = 2\<rparr>"

definition example_mcq_question :: question_row where
  "example_mcq_question =
     \<lparr>q_id = ''q1'', q_test_id = ''t1'', q_question_type = ''mcq'',
      q_question_text = ''Which language is best for beginners?'', q_marks = 1, q_order_no = 1,
      q_is_active = True, q_created_at = 3\<rparr>"

definition example_theory_question :: question_row where
  "example_theory_question =
     \<lparr>q_id = ''q2'', q_test_id = ''t1'', q_question_type = ''theory'',
      q_question_text = ''Explain OOP concepts in detail.'', q_marks = 5, q_order_no = 2,
      q_is_active = False, q_created_at = 4\<rparr>"

definition example_coding_question :: question_row where
  "example_coding_question =
     \<lparr>q_id = ''q3'', q_test_id = ''t1'', q_question_type = ''coding'',
      q_question_text = ''Write a function to calculate factorial.'', q_marks = 10,
      q_order_no = 3, q_is_active = True, q_created_at = 5\<rparr>"

definition example_options :: mcq_row where
  "example_options =
     \<lparr>o_question_id = ''q1'', o_option_a = ''Python'', o_option_b = ''Java'',
      o_option_c = ''JS'', o_option_d = ''C++'', o_correct_option = ''a'',
      o_explanation = None\<rparr>"

definition example_theory_details :: theory_row where
  "example_theory_details =
     \<lparr>th_question_id = ''q2'', th_word_limit = 500, th_sample_answer = None,
      th_keywords = Some [''OOP'', ''inheritance'']\<rparr>"

definition example_coding_details :: coding_row where
  "example_coding_details =
     \<lparr>cd_question_id = ''q3'', cd_programming_language = ''python'',
      cd_starter_code = None, cd_solution_code = None, cd_time_limit_seconds = 5,
      cd_memory_limit_mb = 256,
      cd_test_cases =
        [\<lparr>tc_input = ''5'', tc_expected_output = ''120'', tc_is_hidden = False\<rparr>,
         \<lparr>tc_input = ''0'', tc_expected_output = ''1'', tc_is_hidden = True\<rparr>]\<rparr>"

definition example_db :: db where
  "example_db =
     \<lparr>profiles = [example_profile], tests = [example_test],
      questions = [example_mcq_question, example_theory_question, example_coding_question],
      mcq_options = [example_options], theory_details = [example_theory_details],
      coding_details = [example_coding_details], tick = 6\<rparr>"

definition institution_a :: principal where
  "institution_a = \<lparr>u_id = ''inst-a'', u_role = ''institution''\<rparr>"

definition institution_b :: principal where
  "institution_b = \<lparr>u_id = ''inst-b'', u_role = ''institution''\<rparr>"

definition example_user :: principal where
  "example_user = \<lparr>u_id = ''user-1'', u_role = ''user''\<rparr>"

definition example_profile_create :: ProfileCreate where
  "example_profile_create =
     \<lparr>pc_user_id = ''someone-else'', pc_full_name = ''Rahul S'', pc_email = ''r@example.com'',
      pc_phone = None, pc_bio = None, pc_date_of_birth = ''2000-05-15'', pc_avatar_url = None,
      pc_gender = None, pc_city = Some INDORE, pc_state = MADHYA_PRADESH, pc_country = INDIA,
      pc_role = USER\<rparr>"

text \<open>The \<open>TestUpdate\<close> payload \<open>{}\<close>: every field absent.\<close>

definition TestUpdate_none :: TestUpdate where
  "TestUpdate_none =
     \<lparr>tu_title = None, tu_description = None, tu_difficulty = None,
      tu_duration_minutes = None, tu_total_marks = None, tu_passing_marks = None,
      tu_is_active = None, tu_is_published = None, tu_start_time = None, tu_end_time = None\<rparr>"

definition example_options_update :: MCQOptionUpdate where
  "example_options_update =
     \<lparr>ou_option_a = Some ''Ruby'', ou_option_b = None, ou_option_c = None, ou_option_d = None,
      ou_correct_option = Some Option_B, ou_explanation = None\<rparr>"

definition example_theory_update :: TheoryDetailsUpdate where
  "example_theory_update =
     \<lparr>tdu_word_limit = Some 300, tdu_sample_answer = None, tdu_keywords = None\<rparr>"

definition example_coding_update :: CodingDetailsUpdate where
  "example_coding_update =
     \<lparr>cdu_programming_language = Some JAVA, cdu_starter_code = None,
      cdu_solution_code = None, cdu_time_limit_seconds = None, cdu_memory_limit_mb = None,
      cdu_test_cases = None\<rparr>"

definition example_mcq_create :: MCQQuestionCreate where
  "example_mcq_create =
     \<lparr>mq_test_id = ''t1'', mq_question_text = ''Which language is best for beginners?'',
      mq_marks = 1, mq_order_no = 3,
      mq_options =
        \<lparr>oc_option_a = ''Python'', oc_option_b = ''Java'', oc_option_c = ''JS'',
         oc_option_d = ''C++'', oc_correct_option = Option_A, oc_explanation = None\<rparr>\<rparr>"

definition example_question_update :: QuestionUpdate where
  "example_question_update =
     \<lparr>qu_question_text = None, qu_marks = Some 3, qu_order_no = None, qu_is_active = None\<rparr>"

definition paging_db :: db where
  "paging_db =
     example_db\<lparr>tests :=
       [example_test\<lparr>t_id := ''t2'', t_is_active := True, t_created_at := 6\<rparr>,
        example_test,
        example_test\<lparr>t_id := ''t3'', t_is_active := True, t_created_at := 8\<rparr>,
        example_test\<lparr>t_id := ''t4'', t_is_active := True, t_created_at := 7\<rparr>]\<rparr>"

section \<open>The vocabulary of the properties\<close>

text \<open>
  The filter set of a list call: a row passes when it agrees with every filter that was
  supplied. A filter that is \<open>None\<close> restricts nothing; nor does a text filter that is the
  empty text, which the services treat as not supplied. The list of tests is always
  restricted to active rows.
\<close>

definition test_filter :: "bool option \<Rightarrow> string option \<Rightarrow> test_row \<Rightarrow> bool" where
  "test_filter is_published created_by r =
     (t_is_active r
      \<and> (case is_published of None \<Rightarrow> True | Some b \<Rightarrow> t_is_published r = b)
      \<and> (case created_by of None \<Rightarrow> True | Some c \<Rightarrow> c = [] \<or> t_created_by r = Some c))"

definition profile_filter ::
  "bool option \<Rightarrow> string option \<Rightarrow> string option \<Rightarrow> string option \<Rightarrow> profile_row \<Rightarrow> bool" where
  "profile_filter is_active role city gender r =
     ((case is_active of None \<Rightarrow> True | Some b \<Rightarrow> p_is_active r = b)
      \<and> (case role of None \<Rightarrow> True | Some v \<Rightarrow> v = [] \<or> p_role r = v)
      \<and> (case city of None \<Rightarrow> True | Some v \<Rightarrow> v = [] \<or> p_city r = Some v)
      \<and> (case gender of None \<Rightarrow> True | Some v \<Rightarrow> v = [] \<or> p_gender r = Some v))"

text \<open>The \<open>ProfileUpdate\<close> payload \<open>{}\<close>: every field absent.\<close>

definition ProfileUpdate_none :: ProfileUpdate where
  "ProfileUpdate_none =
     \<lparr>pu_full_name = None, pu_phone = None, pu_bio = None, pu_avatar_url = None,
      pu_date_of_birth = None, pu_gender = None, pu_address = None, pu_city = None,
      pu_state = None, pu_country = None, pu_is_active = None, pu_role = None\<rparr>"

text \<open>
  A column after a partial update: untouched when the field of the payload is absent,
  the stored form of the field's value when it is present.
\<close>

definition col_kept_or_set :: "'a option \<Rightarrow> 'b \<Rightarrow> 'b \<Rightarrow> ('a \<Rightarrow> 'b) \<Rightarrow> bool" where
  "col_kept_or_set field old new stored =
     (case field of None \<Rightarrow> new = old | Some v \<Rightarrow> new = stored v)"

text \<open>
  A row of \<open>tests\<close> (of \<open>profiles\<close>) before and after a partial update: the columns no
  payload can name are untouched, every other column is kept or set as its field says.
\<close>

definition test_patched :: "TestUpdate \<Rightarrow> test_row \<Rightarrow> test_row \<Rightarrow> bool" where
  "test_patched u r r' =
     (t_id r' = t_id r \<and> t_created_by r' = t_created_by r
      \<and> t_created_at r' = t_created_at r \<and> t_updated_at r' = t_updated_at r
      \<and> col_kept_or_set (tu_title u) (t_title r) (t_title r') id
      \<and> col_kept_or_set (tu_description u) (t_description r) (t_description r') Some
      \<and> col_kept_or_set (tu_difficulty u) (t_difficulty r) (t_difficulty r')
            DifficultyEnum_value
      \<and> col_kept_or_set (tu_duration_minutes u) (t_duration_minutes r)
            (t_duration_minutes r') id
      \<and> col_kept_or_set (tu_total_marks u) (t_total_marks r) (t_total_marks r') id
      \<and> col_kept_or_set (tu_passing_marks u) (t_passing_marks r) (t_passing_marks r') id
      \<and> col_kept_or_set (tu_is_active u) (t_is_active r) (t_is_active r') id
      \<and> col_kept_or_set (tu_is_published u) (t_is_published r) (t_is_published r') id
      \<and> col_kept_or_set (tu_start_time u) (t_start_time r) (t_start_time r')
            (\<lambda>d. Some (isoformat d))
      \<and> col_kept_or_set (tu_end_time u) (t_end_time r) (t_end_time r')
            (\<lambda>d. Some (isoformat d)))"

definition profile_patched :: "ProfileUpdate \<Rightarrow> profile_row \<Rightarrow> profile_row \<Rightarrow> bool" where
  "profile_patched u r r' =
     (p_id r' = p_id r \<and> p_user_id r' = p_user_id r \<and> p_email r' = p_email r
      \<and> p_created_at r' = p_created_at r \<and> p_updated_at r' = p_updated_at r
      \<and> col_kept_or_set (pu_full_name u) (p_full_name r) (p_full_name r') id
      \<and> col_kept_or_set (pu_phone u) (p_phone r) (p_phone r') Some
      \<and> col_kept_or_set (pu_bio u) (p_bio r) (p_bio r') Some
      \<and> col_kept_or_set (pu_avatar_url u) (p_avatar_url r) (p_avatar_url r') Some
      \<and> col_kept_or_set (pu_date_of_birth u) (p_date_of_birth r) (p_date_of_birth r')
            (\<lambda>d. Some (str_date d))
      \<and> col_kept_or_set (pu_gender u) (p_gender r) (p_gender r')
            (\<lambda>e. Some (GenderEnum_value e))
      \<and> col_kept_or_set (pu_address u) (p_address r) (p_address r') Some
      \<and> col_kept_or_set (pu_city u) (p_city r) (p_city r') (\<lambda>e. Some (CityEnum_value e))
      \<and> col_kept_or_set (pu_state u) (p_state r) (p_state r') (\<lambda>e. Some (StateEnum_value e))
      \<and> col_kept_or_set (pu_country u) (p_country r) (p_country r')
            (\<lambda>e. Some (CountryEnum_value e))
      \<and> col_kept_or_set (pu_is_active u) (p_is_active r) (p_is_active r') id
      \<and> col_kept_or_set (pu_role u) (p_role r) (p_role r') RoleEnum_value)"

text \<open>
  A row of \<open>questions\<close> and a row of each detail table before and after a partial update,
  in the same way.
\<close>

definition question_patched :: "QuestionUpdate \<Rightarrow> question_row \<Rightarrow> question_row \<Rightarrow> bool" where
  "question_patched u r r' =
     (q_id r' = q_id r \<and> q_test_id r' = q_test_id r
      \<and> q_question_type r' = q_question_type r \<and> q_created_at r' = q_created_at r
      \<and> col_kept_or_set (qu_question_text u) (q_question_text r) (q_question_text r') id
      \<and> col_kept_or_set (qu_marks u) (q_marks r) (q_marks r') id
      \<and> col_kept_or_set (qu_order_no u) (q_order_no r) (q_order_no r') id
      \<and> col_kept_or_set (qu_is_active u) (q_is_active r) (q_is_active r') id)"

definition mcq_patched :: "MCQOptionUpdate \<Rightarrow> mcq_row \<Rightarrow> mcq_row \<Rightarrow> bool" where
  "mcq_patched u r r' =
     (o_question_id r' = o_question_id r
      \<and> col_kept_or_set (ou_option_a u) (o_option_a r) (o_option_a r') id
      \<and> col_kept_or_set (ou_option_b u) (o_option_b r) (o_option_b r') id
      \<and> col_kept_or_set (ou_option_c u) (o_option_c r) (o_option_c r') id
      \<and> col_kept_or_set (ou_option_d u) (o_option_d r) (o_option_d r') id
      \<and> col_kept_or_set (ou_correct_option u) (o_correct_option r) (o_correct_option r')
            CorrectOptionEnum_value
      \<and> col_kept_or_set (ou_explanation u) (o_explanation r) (o_explanation r') Some)"

definition theory_patched :: "TheoryDetailsUpdate \<Rightarrow> theory_row \<Rightarrow> theory_row \<Rightarrow> bool" where
  "theory_patched u r r' =
     (th_question_id r' = th_question_id r
      \<and> col_kept_or_set (tdu_word_limit u) (th_word_limit r) (th_word_limit r') id
      \<and> col_kept_or_set (tdu_sample_answer u) (th_sample_answer r) (th_sample_answer r') Some
      \<and> col_kept_or_set (tdu_keywords u) (th_keywords r) (th_keywords r') Some)"

definition coding_patched :: "CodingDetailsUpdate \<Rightarrow> coding_row \<Rightarrow> coding_row \<Rightarrow> bool" where
  "coding_patched u r r' =
     (cd_question_id r' = cd_question_id r
      \<and> col_kept_or_set (cdu_programming_language u) (cd_programming_language r)
            (cd_programming_language r') ProgrammingLanguageEnum_value
      \<and> col_kept_or_set (cdu_starter_code u) (cd_starter_code r) (cd_starter_code r') Some
      \<and> col_kept_or_set (cdu_solution_code u) (cd_solution_code r) (cd_solution_code r') Some
      \<and> col_kept_or_set (cdu_time_limit_seconds u) (cd_time_limit_seconds r)
            (cd_time_limit_seconds r') id
      \<and> col_kept_or_set (cdu_memory_limit_mb u) (cd_memory_limit_mb r)
            (cd_memory_limit_mb r') id
      \<and> col_kept_or_set (cdu_test_cases u) (cd_test_cases r) (cd_test_cases r') id)"

section \<open>Facts about the storage client\<close>

lemma first_or_none_filter: "first_or_none (filter P xs) = find P xs"
  by (induction xs) (auto simp: first_or_none_def)

lemma case_filter_find:
  "(case filter P xs of [] \<Rightarrow> a | x # _ \<Rightarrow> f x) =
   (case find P xs of None \<Rightarrow> a | Some x \<Rightarrow> f x)"
  by (induction xs) auto

lemma select_eq_data:
  "resp_data (execute_q (eq_q col v (select_q table exact))) = filter (\<lambda>r. col r = v) table"
  by (simp add: execute_q_def eq_q_def select_q_def window_def)

lemma select_eq_count:
  "resp_count (execute_q (eq_q col v (select_q table True))) =
   Some (length (filter (\<lambda>r. col r = v) table))"
  by (simp add: execute_q_def eq_q_def select_q_def)

lemma count_or_zero: "count_or (Some n) 0 = n"
  by (simp add: count_or_def)

lemma filter_split_length:
  "length (filter P xs) =
   length (filter (\<lambda>x. P x \<and> Q x) xs) + length (filter (\<lambda>x. P x \<and> \<not> Q x) xs)"
  by (induction xs) auto

lemma first_or_none_map: "first_or_none (map f xs) = map_option f (first_or_none xs)"
  by (cases xs) (simp_all add: first_or_none_def)

lemma find_mem_Some: "r \<in> set xs \<Longrightarrow> P r \<Longrightarrow> \<exists>x. find P xs = Some x"
  by (cases "find P xs") (auto simp: find_None_iff)

lemma find_map_update:
  "(\<And>r. P r \<Longrightarrow> P (f r)) \<Longrightarrow>
   find P (map (\<lambda>r. if P r then f r else r) xs) = map_option f (find P xs)"
  by (induction xs) auto

lemma map_option_isoformat: "map_option isoformat x = x"
  by (cases x) (simp_all add: isoformat_def)

lemma list_all2_map_if:
  "(\<And>x. P x \<Longrightarrow> R x (f x)) \<Longrightarrow>
   list_all2 (\<lambda>r r'. if P r then R r r' else r' = r) xs (map (\<lambda>r. if P r then f r else r) xs)"
  by (induction xs) auto

section \<open>Direct lookups\<close>

lemma get_test_by_id_find:
  "get_test_by_id test_id db =
     (case find (\<lambda>r. t_id r = test_id) (tests db) of
        None \<Rightarrow> None
      | Some test \<Rightarrow>
          Some ((test_dict test)\<lparr>question_count :=
                  Some (length (filter (\<lambda>q. q_test_id q = test_id) (questions db)))\<rparr>))"
  by (simp add: get_test_by_id_def Let_def case_filter_find str_uuid_def select_eq_data
        select_eq_count count_or_zero split: option.splits)

lemma get_profile_by_user_id_find:
  "get_profile_by_user_id user_id db = find (\<lambda>r. p_user_id r = user_id) (profiles db)"
  by (simp add: get_profile_by_user_id_def first_or_none_filter str_uuid_def select_eq_data)

lemma get_question_by_id_find:
  "get_question_by_id question_id db =
     map_option (\<lambda>q. with_details question_id q db)
       (find (\<lambda>r. q_id r = question_id) (questions db))"
  by (simp add: get_question_by_id_def case_filter_find str_uuid_def select_eq_data
        split: option.splits)

text \<open>
  C6. For a test id that designates a row of \<open>tests\<close>, \<open>get_test_by_id\<close> returns that row
  with \<open>question_count\<close> set to the number of all rows of \<open>questions\<close> whose \<open>test_id\<close> is
  the id, which is the number of the active ones plus the number of the inactive ones; for
  an id that no row of \<open>tests\<close> has, it returns \<open>None\<close> (not found).
\<close>

theorem get_test_by_id_question_count:
  "(find (\<lambda>r. t_id r = test_id) (tests db) = Some test \<longrightarrow>
      get_test_by_id test_id db =
        Some (test_row.extend test
               \<lparr>question_count =
                  Some (length (filter (\<lambda>q. q_test_id q = test_id) (questions db)))\<rparr>)
      \<and> length (filter (\<lambda>q. q_test_id q = test_id) (questions db)) =
          length (filter (\<lambda>q. q_test_id q = test_id \<and> q_is_active q) (questions db)) +
          length (filter (\<lambda>q. q_test_id q = test_id \<and> \<not> q_is_active q) (questions db)))
   \<and> (test_id \<notin> t_id ` set (tests db) \<longrightarrow> get_test_by_id test_id db = None)"
proof -
  have none: "find (\<lambda>r. t_id r = test_id) (tests db) = None"
    if "test_id \<notin> t_id ` set (tests db)"
    using that by (auto simp: find_None_iff)
  show ?thesis
    using filter_split_length [of "\<lambda>q. q_test_id q = test_id" "questions db" q_is_active]
    by (auto simp: get_test_by_id_find none test_dict_def test_row.defs)
qed

theorem get_test_by_id_question_count_witness:
  "find (\<lambda>r. t_id r = ''t1'') (tests example_db) = Some example_test
   \<and> get_test_by_id ''t1'' example_db =
       Some (test_row.extend example_test \<lparr>question_count = Some 3\<rparr>)
   \<and> length (filter (\<lambda>q. q_test_id q = ''t1'' \<and> \<not> q_is_active q) (questions example_db)) = 1
   \<and> ''t9'' \<notin> t_id ` set (tests example_db)
   \<and> get_test_by_id ''t9'' example_db = None"
  using get_test_by_id_question_count [of "''t1''" example_db example_test]
    get_test_by_id_question_count [of "''t9''" example_db example_test]
  by (simp add: example_db_def example_test_def example_mcq_question_def
        example_theory_question_def example_coding_question_def numeral_3_eq_3)

section \<open>Profiles: the one-profile-per-user rule\<close>

text \<open>
  C1. When the table \<open>profiles\<close> already has a row for the user, a second creation fails
  whatever the payload: the service raises its exception (the Conflict), the route answers
  400 Bad Request, and the store, hence the existing row, is what it was.
\<close>

theorem duplicate_profile_conflict:
  assumes "r \<in> set (profiles db)" and "p_user_id r = u_id current_user"
  shows "create_profile profile (u_id current_user) db =
           (Inl (Exception ''Profile already exists for this user''), db)
       \<and> route_create_profile profile current_user db =
           (Inl (HTTPException 400 ''Profile already exists for this user''), db)"
proof -
  have ne: "filter (\<lambda>x. p_user_id x = u_id current_user) (profiles db) \<noteq> []"
    using assms by (auto simp: filter_empty_conv)
  obtain x where x: "find (\<lambda>x. p_user_id x = u_id current_user) (profiles db) = Some x"
    using find_mem_Some [of r "profiles db" "\<lambda>x. p_user_id x = u_id current_user"] assms
    by auto
  have "create_profile profile (u_id current_user) db =
           (Inl (Exception ''Profile already exists for this user''), db)"
    using ne by (simp add: create_profile_def select_eq_data str_uuid_def)
  moreover have "route_create_profile profile current_user db =
           (Inl (HTTPException 400 ''Profile already exists for this user''), db)"
    using x by (simp add: route_create_profile_def get_profile_by_user_id_find)
  ultimately show ?thesis by simp
qed

theorem duplicate_profile_conflict_witness:
  "example_profile \<in> set (profiles example_db)
   \<and> p_user_id example_profile = u_id example_user
   \<and> create_profile example_profile_create (u_id example_user) example_db =
        (Inl (Exception ''Profile already exists for this user''), example_db)
   \<and> route_create_profile example_profile_create example_user example_db =
        (Inl (HTTPException 400 ''Profile already exists for this user''), example_db)"
  using duplicate_profile_conflict
          [of example_profile example_db example_user example_profile_create]
  by (simp add: example_db_def example_profile_def example_user_def)

section \<open>Tests: ownership\<close>

text \<open>
  C2. Let the test id designate a row of \<open>tests\<close> whose creator is not the calling
  institution. Then update, publish, unpublish and delete each answer 403 Forbidden and
  leave the store as it was. The handler of GET by id takes no principal at all: for any
  caller it answers with the test.
\<close>

theorem non_owner_forbidden:
  assumes "u_role user = ''institution''"
      and "find (\<lambda>r. t_id r = test_id) (tests db) = Some test"
      and "t_created_by test = Some owner" and "owner \<noteq> u_id user"
  shows "route_update_test test_id test_update user db =
           (Inl (HTTPException 403 ''Not authorized to update this test''), db)
       \<and> route_publish_test test_id user db = (Inl (HTTPException 403 ''Not authorized''), db)
       \<and> route_unpublish_test test_id user db = (Inl (HTTPException 403 ''Not authorized''), db)
       \<and> route_delete_test test_id user db = (Inl (HTTPException 403 ''Not authorized''), db)
       \<and> (\<exists>n. route_get_test test_id db =
                Inr \<lparr>success = True, message = ''Test found!'',
                     api_data =
                       Some (TestData (test_row.extend test \<lparr>question_count = Some n\<rparr>))\<rparr>)"
  using assms
  by (simp add: route_update_test_def route_publish_test_def route_unpublish_test_def
        route_delete_test_def route_get_test_def require_role_def get_test_by_id_find
        str_opt_def test_dict_def test_row.defs)

theorem non_owner_forbidden_witness:
  "u_role institution_b = ''institution''
   \<and> find (\<lambda>r. t_id r = ''t1'') (tests example_db) = Some example_test
   \<and> t_created_by example_test = Some ''inst-a'' \<and> ''inst-a'' \<noteq> u_id institution_b
   \<and> route_update_test ''t1'' (TestUpdate_none\<lparr>tu_title := Some ''Taken over''\<rparr>)
        institution_b example_db =
        (Inl (HTTPException 403 ''Not authorized to update this test''), example_db)
   \<and> route_delete_test ''t1'' institution_b example_db =
        (Inl (HTTPException 403 ''Not authorized''), example_db)"
  using non_owner_forbidden [of institution_b "''t1''" example_db example_test "''inst-a''"
      "TestUpdate_none\<lparr>tu_title := Some ''Taken over''\<rparr>"]
  by (simp add: example_db_def example_test_def institution_b_def)

section \<open>Questions: the type guard of the detail endpoints\<close>

text \<open>
  C7. Let the question id designate a row of \<open>questions\<close> whose type is not \<open>mcq\<close>. Then a
  PUT to the mcq-options endpoint by an institution answers 400 Bad Request, and the store
  it leaves is the store it found: the update service has not run, and the detail row of
  the question (in \<open>theory_details\<close> or \<open>coding_details\<close>) is what it was.
\<close>

theorem mcq_options_type_guard:
  assumes "u_role user = ''institution''"
      and "find (\<lambda>r. q_id r = question_id) (questions db) = Some question"
      and "q_question_type question \<noteq> ''mcq''"
  shows "route_update_mcq_options question_id update_data user db =
           (Inl (HTTPException 400 ''Not an MCQ question!''), db)"
  using assms
  by (simp add: route_update_mcq_options_def require_role_def get_question_by_id_find
        with_details_def question_dict_def question_row.defs split: list.splits)

theorem mcq_options_type_guard_witness:
  "u_role institution_a = ''institution''
   \<and> find (\<lambda>r. q_id r = ''q2'') (questions example_db) = Some example_theory_question
   \<and> q_question_type example_theory_question \<noteq> ''mcq''
   \<and> route_update_mcq_options ''q2'' example_options_update institution_a example_db =
        (Inl (HTTPException 400 ''Not an MCQ question!''), example_db)"
  using mcq_options_type_guard [of institution_a "''q2''" example_db example_theory_question
      example_options_update]
  by (simp add: example_db_def example_theory_question_def example_mcq_question_def
        example_coding_question_def institution_a_def)

section \<open>Tests: the generic update\<close>

lemma set_test_cols_id: "t_id (set_test_cols d r) = t_id r"
  by (simp add: set_test_cols_def)

lemma update_test_tests:
  "TestUpdate_model_dump u \<noteq> empty_test_data \<Longrightarrow>
   snd (update_test test_id u db) =
     db\<lparr>tests := map (\<lambda>r. if t_id r = test_id
                            then set_test_cols (TestUpdate_model_dump u) r else r) (tests db)\<rparr>"
  by (simp add: update_test_def Let_def update_q_def map_option_isoformat str_uuid_def
        split: prod.splits)

lemma TestUpdate_published_nonempty:
  "TestUpdate_model_dump (TestUpdate_none\<lparr>tu_is_published := Some b\<rparr>) \<noteq> empty_test_data"
  by (simp add: TestUpdate_model_dump_def TestUpdate_none_def empty_test_data_def)

lemma TestUpdate_active_nonempty:
  "TestUpdate_model_dump (TestUpdate_none\<lparr>tu_is_active := Some b\<rparr>) \<noteq> empty_test_data"
  by (simp add: TestUpdate_model_dump_def TestUpdate_none_def empty_test_data_def)

lemma set_published:
  "set_test_cols (TestUpdate_model_dump (TestUpdate_none\<lparr>tu_is_published := Some b\<rparr>)) r
   = r\<lparr>t_is_published := b\<rparr>"
  by (simp add: set_test_cols_def TestUpdate_model_dump_def TestUpdate_none_def set_col_def
        set_null_col_def)

lemma set_active:
  "set_test_cols (TestUpdate_model_dump (TestUpdate_none\<lparr>tu_is_active := Some b\<rparr>)) r
   = r\<lparr>t_is_active := b\<rparr>"
  by (simp add: set_test_cols_def TestUpdate_model_dump_def TestUpdate_none_def set_col_def
        set_null_col_def)

lemma route_update_test_owner:
  assumes "u_role user = ''institution''"
      and "find (\<lambda>r. t_id r = test_id) (tests db) = Some test"
      and "t_created_by test = Some (u_id user)"
  shows "route_update_test test_id u user db =
           (Inr \<lparr>success = True, message = ''Test updated!'',
                 api_data = map_option TestData (fst (update_test test_id u db))\<rparr>,
            snd (update_test test_id u db))"
  using assms
  by (simp add: route_update_test_def require_role_def get_test_by_id_find str_opt_def
        test_dict_def test_row.defs split: prod.splits)

lemma dump_published:
  "TestUpdate_model_dump (TestUpdate_none\<lparr>tu_is_published := Some b\<rparr>) =
   empty_test_data\<lparr>td_is_published := Some b\<rparr>"
  by (simp add: TestUpdate_model_dump_def TestUpdate_none_def empty_test_data_def)

lemma publish_test_store:
  "snd (publish_test test_id db) =
     snd (update_test test_id (TestUpdate_none\<lparr>tu_is_published := Some True\<rparr>) db)"
  using update_test_tests [OF TestUpdate_published_nonempty, of test_id True db]
  by (simp add: publish_test_def dump_published update_q_def str_uuid_def)

lemma unpublish_test_store:
  "snd (unpublish_test test_id db) =
     snd (update_test test_id (TestUpdate_none\<lparr>tu_is_published := Some False\<rparr>) db)"
  using update_test_tests [OF TestUpdate_published_nonempty, of test_id False db]
  by (simp add: unpublish_test_def dump_published update_q_def str_uuid_def)

lemma route_publish_test_owner:
  assumes "u_role user = ''institution''"
      and "find (\<lambda>r. t_id r = test_id) (tests db) = Some test"
      and "t_created_by test = Some (u_id user)"
  shows "snd (route_publish_test test_id user db) = snd (publish_test test_id db)"
    and "snd (route_unpublish_test test_id user db) = snd (unpublish_test test_id db)"
  using assms
  by (simp_all add: route_publish_test_def route_unpublish_test_def require_role_def
        get_test_by_id_find str_opt_def test_dict_def test_row.defs split: prod.splits)

text \<open>
  C10. \<open>TestUpdate\<close> has the fields \<open>is_published\<close> and \<open>is_active\<close>, and the update writes
  them like any other: a PUT by the owner with the payload \<open>{is_published: b}\<close> succeeds and
  leaves the test published or unpublished as \<open>b\<close> says, and one with \<open>{is_active: b}\<close>
  succeeds and leaves it active or inactive as \<open>b\<close> says, so \<open>{is_active: true}\<close> brings a
  soft-deleted test back. The lookup that precedes the update does not read \<open>is_active\<close>.
  The store that \<open>{is_published: true}\<close> leaves is the store the publish endpoint leaves,
  and likewise \<open>{is_published: false}\<close> and the unpublish endpoint.
\<close>

theorem generic_update_sets_lifecycle_flags:
  assumes "u_role user = ''institution''"
      and "find (\<lambda>r. t_id r = test_id) (tests db) = Some test"
      and "t_created_by test = Some (u_id user)"
  shows "(\<exists>resp db'.
            route_update_test test_id (TestUpdate_none\<lparr>tu_is_published := Some b\<rparr>) user db =
              (Inr resp, db')
          \<and> success resp
          \<and> find (\<lambda>r. t_id r = test_id) (tests db') = Some (test\<lparr>t_is_published := b\<rparr>))
       \<and> (\<exists>resp db'.
            route_update_test test_id (TestUpdate_none\<lparr>tu_is_active := Some b\<rparr>) user db =
              (Inr resp, db')
          \<and> success resp
          \<and> find (\<lambda>r. t_id r = test_id) (tests db') = Some (test\<lparr>t_is_active := b\<rparr>))
       \<and> snd (route_update_test test_id (TestUpdate_none\<lparr>tu_is_published := Some True\<rparr>)
                 user db) =
           snd (route_publish_test test_id user db)
       \<and> snd (route_update_test test_id (TestUpdate_none\<lparr>tu_is_published := Some False\<rparr>)
                 user db) =
           snd (route_unpublish_test test_id user db)"
proof -
  have keep: "\<And>d r. t_id r = test_id \<Longrightarrow> t_id (set_test_cols d r) = test_id"
    by (simp add: set_test_cols_id)
  have p: "find (\<lambda>r. t_id r = test_id)
             (tests (snd (update_test test_id
                            (TestUpdate_none\<lparr>tu_is_published := Some b\<rparr>) db)))
           = Some (test\<lparr>t_is_published := b\<rparr>)"
    using assms(2)
    by (simp add: update_test_tests TestUpdate_published_nonempty find_map_update keep
          set_published)
  have a: "find (\<lambda>r. t_id r = test_id)
             (tests (snd (update_test test_id (TestUpdate_none\<lparr>tu_is_active := Some b\<rparr>) db)))
           = Some (test\<lparr>t_is_active := b\<rparr>)"
    using assms(2)
    by (simp add: update_test_tests TestUpdate_active_nonempty find_map_update keep set_active)
  have same: "snd (route_update_test test_id (TestUpdate_none\<lparr>tu_is_published := Some True\<rparr>)
                 user db) =
           snd (route_publish_test test_id user db)"
      "snd (route_update_test test_id (TestUpdate_none\<lparr>tu_is_published := Some False\<rparr>)
                 user db) =
           snd (route_unpublish_test test_id user db)"
    by (simp_all add: route_update_test_owner [OF assms] route_publish_test_owner [OF assms]
          publish_test_store unpublish_test_store)
  show ?thesis
    using p a same by (simp add: route_update_test_owner [OF assms])
qed

theorem generic_update_sets_lifecycle_flags_witness:
  "u_role institution_a = ''institution''
   \<and> find (\<lambda>r. t_id r = ''t1'') (tests example_db) = Some example_test
   \<and> t_created_by example_test = Some (u_id institution_a)
   \<and> t_is_active example_test = False \<and> t_is_published example_test = False
   \<and> find (\<lambda>r. t_id r = ''t1'')
        (tests (snd (route_update_test ''t1'' (TestUpdate_none\<lparr>tu_is_published := Some True\<rparr>)
                       institution_a example_db)))
       = Some (example_test\<lparr>t_is_published := True\<rparr>)
   \<and> find (\<lambda>r. t_id r = ''t1'')
        (tests (snd (route_update_test ''t1'' (TestUpdate_none\<lparr>tu_is_active := Some True\<rparr>)
                       institution_a example_db)))
       = Some (example_test\<lparr>t_is_active := True\<rparr>)"
  using generic_update_sets_lifecycle_flags
          [of institution_a "''t1''" example_db example_test True]
  by (auto simp add: example_db_def example_test_def institution_a_def)

section \<open>Questions: delete, and the MCQ round trip\<close>

lemma find_Some_filter_nonempty: "find P xs = Some x \<Longrightarrow> filter P xs \<noteq> []"
  by (auto simp: filter_empty_conv find_Some_iff)

lemma set_inactive:
  "set_question_cols (empty_question_data\<lparr>qd_is_active := Some False\<rparr>) r = r\<lparr>q_is_active := False\<rparr>"
  by (simp add: set_question_cols_def empty_question_data_def set_col_def)

lemma delete_question_eval:
  "delete_question question_id db =
     (filter (\<lambda>r. q_id r = question_id) (questions db) \<noteq> [],
      db\<lparr>questions := map (\<lambda>r. if q_id r = question_id then r\<lparr>q_is_active := False\<rparr> else r)
                          (questions db)\<rparr>)"
  by (simp add: delete_question_def update_q_def str_uuid_def set_inactive)

lemma find_append_fresh:
  "\<forall>x\<in>set xs. \<not> P x \<Longrightarrow> P y \<Longrightarrow> find P (xs @ [y]) = Some y"
  by (induction xs) auto

lemma filter_append_fresh:
  "\<forall>x\<in>set xs. \<not> P x \<Longrightarrow> P y \<Longrightarrow> filter P (xs @ [y]) = [y]"
  by (induction xs) auto

text \<open>
  C8. When the store accepts both inserts and the id it generates is new (no question and
  no option row carries it yet), \<open>create_mcq_question\<close> returns a question, and
  \<open>get_question_by_id\<close> at the id of that question returns the same question, whose nested
  \<open>options\<close> are the submitted \<open>option_a\<close> to \<open>option_d\<close> and \<open>explanation\<close> and the string
  value of the submitted \<open>correct_option\<close>.
\<close>

theorem mcq_create_then_get_roundtrip:
  assumes "gen_uuid (tick db) \<notin> q_id ` set (questions db)"
      and "gen_uuid (tick db) \<notin> o_question_id ` set (mcq_options db)"
  shows "\<exists>question db'.
           create_mcq_question question_data db = (Some question, db')
         \<and> get_question_by_id (q_id question) db' = Some question
         \<and> options question =
             Some \<lparr>o_question_id = q_id question,
                   o_option_a = oc_option_a (mq_options question_data),
                   o_option_b = oc_option_b (mq_options question_data),
                   o_option_c = oc_option_c (mq_options question_data),
                   o_option_d = oc_option_d (mq_options question_data),
                   o_correct_option =
                     CorrectOptionEnum_value (oc_correct_option (mq_options question_data)),
                   o_explanation = oc_explanation (mq_options question_data)\<rparr>"
proof -
  define q_data where "q_data =
            \<lparr>qd_test_id = Some (str_uuid (mq_test_id question_data)),
             qd_question_type = Some ''mcq'',
             qd_question_text = Some (mq_question_text question_data),
             qd_marks = Some (mq_marks question_data),
             qd_order_no = Some (mq_order_no question_data),
             qd_is_active = None\<rparr>"
  define row where "row = new_question_row q_data (tick db)"
  define opt where "opt =
             \<lparr>o_question_id = q_id row,
                   o_option_a = oc_option_a (mq_options question_data),
                   o_option_b = oc_option_b (mq_options question_data),
                   o_option_c = oc_option_c (mq_options question_data),
                   o_option_d = oc_option_d (mq_options question_data),
                   o_correct_option =
                     CorrectOptionEnum_value (oc_correct_option (mq_options question_data)),
                   o_explanation = oc_explanation (mq_options question_data)\<rparr>"
  define db' where "db' = db\<lparr>questions := questions db @ [row], tick := Suc (tick db),
                            mcq_options := mcq_options db @ [opt]\<rparr>"
  define question where "question = (question_dict row)\<lparr>options := Some opt\<rparr>"
  have rid: "q_id row = gen_uuid (tick db)"
    by (simp add: row_def new_question_row_def set_question_cols_def)
  have rty: "q_question_type row = ''mcq''"
    by (simp add: row_def new_question_row_def set_question_cols_def q_data_def set_col_def)
  have created: "create_mcq_question question_data db = (Some question, db')"
    by (simp add: create_mcq_question_def Let_def insert_q_def q_data_def [symmetric]
          row_def [symmetric] opt_def [symmetric] db'_def question_def)
  have qid: "q_id question = gen_uuid (tick db)"
    by (simp add: question_def question_dict_def question_row.defs rid)
  have f1: "find (\<lambda>r. q_id r = gen_uuid (tick db)) (questions db') = Some row"
  proof -
    have "\<forall>x\<in>set (questions db). \<not> q_id x = gen_uuid (tick db)"
      using assms(1) by (metis imageI)
    then show ?thesis
      by (simp add: db'_def find_append_fresh rid)
  qed
  have f2: "filter (\<lambda>r. o_question_id r = gen_uuid (tick db)) (mcq_options db') = [opt]"
  proof -
    have "\<forall>x\<in>set (mcq_options db). \<not> o_question_id x = gen_uuid (tick db)"
      using assms(2) by (metis imageI)
    moreover have "o_question_id opt = gen_uuid (tick db)"
      by (simp add: opt_def rid)
    ultimately show ?thesis
      by (simp add: db'_def filter_append_fresh)
  qed
  have fetched: "get_question_by_id (q_id question) db' = Some question"
  proof -
    have "get_question_by_id (gen_uuid (tick db)) db' =
            Some (with_details (gen_uuid (tick db)) row db')"
      by (simp add: get_question_by_id_find f1)
    moreover have "with_details (gen_uuid (tick db)) row db' = question"
      by (simp add: with_details_def rty select_eq_data f2 question_def)
    ultimately show ?thesis
      by (simp only: qid)
  qed
  have "options question = Some opt"
    by (simp add: question_def)
  then show ?thesis
    using created fetched unfolding opt_def rid [symmetric]
    by (auto simp: question_def question_dict_def question_row.defs)
qed

theorem mcq_create_then_get_roundtrip_witness:
  "gen_uuid (tick example_db) \<notin> q_id ` set (questions example_db)
   \<and> gen_uuid (tick example_db) \<notin> o_question_id ` set (mcq_options example_db)
   \<and> (\<exists>question db'.
           create_mcq_question example_mcq_create example_db = (Some question, db')
         \<and> get_question_by_id (q_id question) db' = Some question
         \<and> options question =
             Some \<lparr>o_question_id = q_id question, o_option_a = ''Python'', o_option_b = ''Java'',
                   o_option_c = ''JS'', o_option_d = ''C++'', o_correct_option = ''a'',
                   o_explanation = None\<rparr>)"
  using mcq_create_then_get_roundtrip [of example_db example_mcq_create]
  by (simp add: example_db_def example_mcq_question_def example_theory_question_def
        example_coding_question_def example_options_def gen_uuid_def example_mcq_create_def)


section \<open>Lists, soft delete and partial updates\<close>

lemma window_page:
  "1 \<le> page \<Longrightarrow> 1 \<le> limit \<Longrightarrow>
   window (Some ((page - 1) * limit, (page - 1) * limit + limit - 1)) rows =
     take (nat limit) (drop (nat ((page - 1) * limit)) rows)"
  by (simp add: window_def)

lemma count_or_length:
  "length ys \<le> n \<Longrightarrow> count_or (Some n) (length ys) = n"
  by (auto simp: count_or_def)

lemma length_window: "length (window w rows) \<le> length rows"
  by (auto simp: window_def split: option.splits prod.splits)

lemma set_window: "set (window w rows) \<subseteq> set rows"
  by (auto simp: window_def split: option.splits prod.splits if_splits
        dest: in_set_takeD in_set_dropD)

lemma tests_query_rows:
  "sel_rows (eq_q t_is_active True
      (let query = select_q (tests db) True;
           query = (case is_published of None \<Rightarrow> query | Some b \<Rightarrow> eq_q t_is_published b query)
       in if truthy created_by then eq_q t_created_by created_by query else query)) =
   filter (test_filter is_published created_by) (tests db)"
  by (cases is_published; cases created_by)
     (auto simp: eq_q_def select_q_def test_filter_def truthy_def Let_def intro!: filter_cong)

lemma get_all_tests_eval:
  "get_all_tests page limit is_published created_by db =
     (window (Some ((page - 1) * limit, (page - 1) * limit + limit - 1))
        (rev (sort_key t_created_at (filter (test_filter is_published created_by) (tests db)))),
      length (filter (test_filter is_published created_by) (tests db)))"
proof -
  let ?q = "(let query = select_q (tests db) True;
           query = (case is_published of None \<Rightarrow> query | Some b \<Rightarrow> eq_q t_is_published b query)
       in if truthy created_by then eq_q t_created_by created_by query else query)"
  have c: "sel_count (eq_q t_is_active True ?q)"
    by (simp add: eq_q_def select_q_def Let_def split: option.splits)
  have r: "sel_rows (eq_q t_is_active True ?q) = filter (test_filter is_published created_by) (tests db)"
    by (rule tests_query_rows)
  have le: "length (window w (rev (sort_key t_created_at xs))) \<le> length xs" for w and xs :: "test_row list"
    using length_window [of w "rev (sort_key t_created_at xs)"] by simp
  show ?thesis
    unfolding get_all_tests_def
    using c r
    by (simp add: Let_def execute_q_def range_q_def order_q_def count_or_length le)
qed

lemma profiles_query_rows:
  "sel_rows
      (let query = select_q (profiles db) True;
           query = (case is_active of None \<Rightarrow> query | Some b \<Rightarrow> eq_q p_is_active b query);
           query = (if truthy role then eq_q (\<lambda>r. Some (p_role r)) role query else query);
           query = (if truthy city then eq_q p_city city query else query)
       in if truthy gender then eq_q p_gender gender query else query) =
   filter (profile_filter is_active role city gender) (profiles db)"
  by (cases is_active; cases role; cases city; cases gender)
     (auto simp: eq_q_def select_q_def profile_filter_def truthy_def Let_def intro!: filter_cong)

lemma get_all_profiles_eval:
  "get_all_profiles page limit is_active role city gender db =
     (window (Some ((page - 1) * limit, (page - 1) * limit + limit - 1))
        (rev (sort_key p_created_at
               (filter (profile_filter is_active role city gender) (profiles db)))),
      length (filter (profile_filter is_active role city gender) (profiles db)))"
proof -
  let ?q = "(let query = select_q (profiles db) True;
           query = (case is_active of None \<Rightarrow> query | Some b \<Rightarrow> eq_q p_is_active b query);
           query = (if truthy role then eq_q (\<lambda>r. Some (p_role r)) role query else query);
           query = (if truthy city then eq_q p_city city query else query)
       in if truthy gender then eq_q p_gender gender query else query)"
  have c: "sel_count ?q"
    by (simp add: eq_q_def select_q_def Let_def split: option.splits)
  have r: "sel_rows ?q = filter (profile_filter is_active role city gender) (profiles db)"
    by (rule profiles_query_rows)
  have le: "length (window w (rev (sort_key p_created_at xs))) \<le> length xs"
    for w and xs :: "profile_row list"
    using length_window [of w "rev (sort_key p_created_at xs)"] by simp
  have "get_all_profiles page limit is_active role city gender db =
      (let res = execute_q (range_q ((page - 1) * limit) ((page - 1) * limit + limit - 1)
                  (order_q p_created_at True ?q))
       in (resp_data res, count_or (resp_count res) (length (resp_data res))))"
    by (simp add: get_all_profiles_def Let_def)
  then show ?thesis
    using c r
    by (simp add: Let_def execute_q_def range_q_def order_q_def count_or_length le)
qed

text \<open>
  C4. For a page \<open>p \<ge> 1\<close> and a limit \<open>l \<ge> 1\<close> and any filters, the list of tests and the
  list of profiles return the rows \<open>(p - 1) * l\<close> onwards, at most \<open>l\<close> of them, of the rows
  that pass the filters, newest first; the total they return is the number of all rows that
  pass the filters, in which neither \<open>p\<close> nor \<open>l\<close> occurs.
\<close>

theorem list_pagination:
  assumes "1 \<le> page" and "1 \<le> limit"
  shows "fst (get_all_tests page limit is_published created_by db) =
           take (nat limit) (drop (nat ((page - 1) * limit))
             (rev (sort_key t_created_at
                    (filter (test_filter is_published created_by) (tests db)))))
       \<and> length (fst (get_all_tests page limit is_published created_by db)) \<le> nat limit
       \<and> snd (get_all_tests page limit is_published created_by db) =
           length (filter (test_filter is_published created_by) (tests db))
       \<and> fst (get_all_profiles page limit is_active role city gender db) =
           take (nat limit) (drop (nat ((page - 1) * limit))
             (rev (sort_key p_created_at
                    (filter (profile_filter is_active role city gender) (profiles db)))))
       \<and> length (fst (get_all_profiles page limit is_active role city gender db)) \<le> nat limit
       \<and> snd (get_all_profiles page limit is_active role city gender db) =
           length (filter (profile_filter is_active role city gender) (profiles db))"
  using assms by (simp add: get_all_tests_eval get_all_profiles_eval window_page)


theorem list_pagination_witness:
  "(1::int) \<le> 2 \<and> (1::int) \<le> 2
   \<and> get_all_tests 1 2 None None paging_db =
       ([example_test\<lparr>t_id := ''t3'', t_is_active := True, t_created_at := 8\<rparr>,
         example_test\<lparr>t_id := ''t4'', t_is_active := True, t_created_at := 7\<rparr>], 3)
   \<and> get_all_tests 2 2 None None paging_db =
       ([example_test\<lparr>t_id := ''t2'', t_is_active := True, t_created_at := 6\<rparr>], 3)"
proof -
  have rows: "rev (sort_key t_created_at (filter (test_filter None None) (tests paging_db))) =
      [example_test\<lparr>t_id := ''t3'', t_is_active := True, t_created_at := 8\<rparr>,
       example_test\<lparr>t_id := ''t4'', t_is_active := True, t_created_at := 7\<rparr>,
       example_test\<lparr>t_id := ''t2'', t_is_active := True, t_created_at := 6\<rparr>]"
    by (simp add: paging_db_def example_db_def example_test_def test_filter_def)
  have len: "length (filter (test_filter None None) (tests paging_db)) = 3"
    by (simp add: paging_db_def example_db_def example_test_def test_filter_def)
  have one: "(1::int) \<le> 1" and two: "(1::int) \<le> 2"
    by simp_all
  show ?thesis
    using list_pagination [OF one two, where is_published = None and created_by = None
            and db = paging_db and is_active = None and role = None and city = None
            and gender = None]
          list_pagination [OF two two, where is_published = None and created_by = None
            and db = paging_db and is_active = None and role = None and city = None
            and gender = None]
    by (simp add: rows len prod_eq_iff numeral_2_eq_2)
qed

lemma find_distinct:
  "distinct (map f xs) \<Longrightarrow> x \<in> set xs \<Longrightarrow> find (\<lambda>r. f r = f x) xs = Some x"
  by (induction xs) (auto simp: image_iff)

lemma truncate_with_details: "question_row.truncate (with_details i q db) = q"
  by (simp add: with_details_def question_dict_def question_row.defs split: list.splits)

lemma get_questions_by_test_rows:
  "question_row.truncate ` set (get_questions_by_test test_id question_type db)
     \<subseteq> {q \<in> set (questions db). q_is_active q}"
  by (auto simp: get_questions_by_test_def Let_def execute_q_def order_q_def eq_q_def
        select_q_def window_def truncate_with_details)

text \<open>
  C3, as the code has it. Each of these holds of every store on its own. An inactive test
  is in no result of the list of tests, and an inactive question in no result of the list
  of questions of a test, whatever the filters and the page. An inactive profile is in no
  result of the list of profiles called with \<open>is_active = true\<close>; the list called without
  \<open>is_active\<close> applies no such filter, and its total counts every profile. In a table with
  unique ids, a row, active or not, is what the direct lookup by its id (by \<open>user_id\<close> for
  a profile) returns.
\<close>

theorem inactive_rows_and_lists:
  "(\<not> t_is_active test \<longrightarrow>
      test \<notin> set (fst (get_all_tests page limit is_published created_by db)))
   \<and> (\<not> q_is_active question \<longrightarrow>
      question \<notin>
        question_row.truncate ` set (get_questions_by_test test_id question_type db))
   \<and> (\<not> p_is_active profile \<longrightarrow>
      profile \<notin> set (fst (get_all_profiles page limit (Some True) role city gender db)))
   \<and> snd (get_all_profiles page limit None None None None db) = length (profiles db)
   \<and> (test \<in> set (tests db) \<and> distinct (map t_id (tests db)) \<longrightarrow>
      (\<exists>n. get_test_by_id (t_id test) db =
              Some (test_row.extend test \<lparr>question_count = Some n\<rparr>)))
   \<and> (question \<in> set (questions db) \<and> distinct (map q_id (questions db)) \<longrightarrow>
      (\<exists>v. get_question_by_id (q_id question) db = Some v
            \<and> question_row.truncate v = question))
   \<and> (profile \<in> set (profiles db) \<and> distinct (map p_user_id (profiles db)) \<longrightarrow>
      get_profile_by_user_id (p_user_id profile) db = Some profile)"
proof -
  have t: "test \<notin> set (fst (get_all_tests page limit is_published created_by db))"
    if "\<not> t_is_active test"
    using that set_window [of "Some ((page - 1) * limit, (page - 1) * limit + limit - 1)"
        "rev (sort_key t_created_at (filter (test_filter is_published created_by) (tests db)))"]
    by (auto simp: get_all_tests_eval test_filter_def)
  have q: "question \<notin>
        question_row.truncate ` set (get_questions_by_test test_id question_type db)"
    if "\<not> q_is_active question"
    using that get_questions_by_test_rows [of test_id question_type db] by auto
  have p: "profile \<notin> set (fst (get_all_profiles page limit (Some True) role city gender db))"
    if "\<not> p_is_active profile"
    using that set_window [of "Some ((page - 1) * limit, (page - 1) * limit + limit - 1)"
        "rev (sort_key p_created_at
               (filter (profile_filter (Some True) role city gender) (profiles db)))"]
    by (auto simp: get_all_profiles_eval profile_filter_def)
  have all: "snd (get_all_profiles page limit None None None None db) = length (profiles db)"
    by (simp add: get_all_profiles_eval profile_filter_def)
  have gt: "\<exists>n. get_test_by_id (t_id test) db =
                 Some (test_row.extend test \<lparr>question_count = Some n\<rparr>)"
    if "test \<in> set (tests db)" and "distinct (map t_id (tests db))"
    using find_distinct [OF that(2,1)]
    by (simp add: get_test_by_id_find test_dict_def test_row.defs)
  have gq: "\<exists>v. get_question_by_id (q_id question) db = Some v
               \<and> question_row.truncate v = question"
    if "question \<in> set (questions db)" and "distinct (map q_id (questions db))"
    using find_distinct [OF that(2,1)]
    by (simp add: get_question_by_id_find truncate_with_details)
  have gp: "get_profile_by_user_id (p_user_id profile) db = Some profile"
    if "profile \<in> set (profiles db)" and "distinct (map p_user_id (profiles db))"
    using find_distinct [OF that(2,1)]
    by (simp add: get_profile_by_user_id_find)
  show ?thesis using t q p all gt gq gp by blast
qed

text \<open>
  C3 as stated fails for profiles: the default list (page 1, limit 10, no filter) of a
  store whose only profile is inactive returns that profile.
\<close>

theorem default_profile_list_shows_inactive:
  "p_is_active example_profile = False
   \<and> example_profile \<in> set (fst (get_all_profiles 1 10 None None None None example_db))"
  by (simp add: get_all_profiles_eval window_def profile_filter_def example_db_def
        example_profile_def)


lemma TestUpdate_dump_empty:
  "TestUpdate_model_dump u = empty_test_data \<longleftrightarrow> u = TestUpdate_none"
  by (cases u) (auto simp: TestUpdate_model_dump_def empty_test_data_def TestUpdate_none_def)

lemma ProfileUpdate_dump_empty:
  "ProfileUpdate_model_dump u = empty_profile_data \<longleftrightarrow> u = ProfileUpdate_none"
  by (cases u)
     (auto simp: ProfileUpdate_model_dump_def empty_profile_data_def ProfileUpdate_none_def)

lemma test_patched_set_cols: "test_patched u r (set_test_cols (TestUpdate_model_dump u) r)"
  by (simp add: test_patched_def set_test_cols_def TestUpdate_model_dump_def col_kept_or_set_def
        set_col_def set_null_col_def isoformat_def split: option.splits)

lemma profile_patched_set_cols:
  "profile_patched u r (set_profile_cols (convert_enums (ProfileUpdate_model_dump u)) r)"
  by (simp add: profile_patched_def set_profile_cols_def ProfileUpdate_model_dump_def
        convert_enums_def col_kept_or_set_def set_col_def set_null_col_def
        split: option.splits)

lemma update_profile_profiles:
  "ProfileUpdate_model_dump u \<noteq> empty_profile_data \<Longrightarrow>
   snd (update_profile user_id u db) =
     db\<lparr>profiles := map (\<lambda>r. if p_user_id r = user_id
                 then set_profile_cols (convert_enums (ProfileUpdate_model_dump u)) r else r)
               (profiles db)\<rparr>"
  by (simp add: update_profile_def Let_def update_q_def str_uuid_def split: prod.splits)

text \<open>
  C5. For a test and for a profile that exist, the update with the empty payload returns
  the store as it was together with what the lookup returns on it: the profile row itself,
  the test row with its \<open>question_count\<close>. An update with a payload that is not empty leaves
  every other table and every row with another id as they were, and in a row with the id
  it leaves untouched each column whose field is absent from the payload (and each column
  no payload can name) and sets each column whose field is present.
\<close>

theorem partial_update_frame:
  "(find (\<lambda>r. t_id r = test_id) (tests db) = Some test \<longrightarrow>
      update_test test_id TestUpdate_none db = (get_test_by_id test_id db, db)
      \<and> (\<exists>n. get_test_by_id test_id db =
                Some (test_row.extend test \<lparr>question_count = Some n\<rparr>)))
   \<and> (find (\<lambda>r. p_user_id r = user_id) (profiles db) = Some profile \<longrightarrow>
      update_profile user_id ProfileUpdate_none db = (Some profile, db))
   \<and> (test_update \<noteq> TestUpdate_none \<longrightarrow>
        snd (update_test test_id test_update db) =
          db\<lparr>tests := tests (snd (update_test test_id test_update db))\<rparr>
        \<and> list_all2 (\<lambda>r r'. if t_id r = test_id then test_patched test_update r r' else r' = r)
             (tests db) (tests (snd (update_test test_id test_update db))))
   \<and> (profile_update \<noteq> ProfileUpdate_none \<longrightarrow>
        snd (update_profile user_id profile_update db) =
          db\<lparr>profiles := profiles (snd (update_profile user_id profile_update db))\<rparr>
        \<and> list_all2 (\<lambda>r r'. if p_user_id r = user_id
                               then profile_patched profile_update r r' else r' = r)
             (profiles db) (profiles (snd (update_profile user_id profile_update db))))"
proof -
  have t_empty: "update_test test_id TestUpdate_none db = (get_test_by_id test_id db, db)"
    by (simp add: update_test_def TestUpdate_dump_empty)
  have t_row: "\<exists>n. get_test_by_id test_id db =
                Some (test_row.extend test \<lparr>question_count = Some n\<rparr>)"
    if "find (\<lambda>r. t_id r = test_id) (tests db) = Some test"
    using that by (simp add: get_test_by_id_find test_dict_def test_row.defs)
  have p_empty: "update_profile user_id ProfileUpdate_none db = (Some profile, db)"
    if "find (\<lambda>r. p_user_id r = user_id) (profiles db) = Some profile"
    using that by (simp add: update_profile_def ProfileUpdate_dump_empty
          get_profile_by_user_id_find)
  have t_some: "snd (update_test test_id test_update db) =
          db\<lparr>tests := tests (snd (update_test test_id test_update db))\<rparr>
        \<and> list_all2 (\<lambda>r r'. if t_id r = test_id then test_patched test_update r r' else r' = r)
             (tests db) (tests (snd (update_test test_id test_update db)))"
    if "test_update \<noteq> TestUpdate_none"
    using that
    by (simp add: update_test_tests TestUpdate_dump_empty list_all2_map_if
          test_patched_set_cols)
  have p_some: "snd (update_profile user_id profile_update db) =
          db\<lparr>profiles := profiles (snd (update_profile user_id profile_update db))\<rparr>
        \<and> list_all2 (\<lambda>r r'. if p_user_id r = user_id
                               then profile_patched profile_update r r' else r' = r)
             (profiles db) (profiles (snd (update_profile user_id profile_update db)))"
    if "profile_update \<noteq> ProfileUpdate_none"
    using that
    by (simp add: update_profile_profiles ProfileUpdate_dump_empty list_all2_map_if
          profile_patched_set_cols)
  show ?thesis
    using t_empty t_row p_empty t_some p_some by blast
qed


theorem partial_update_frame_witness:
  "find (\<lambda>r. t_id r = ''t1'') (tests example_db) = Some example_test
   \<and> find (\<lambda>r. p_user_id r = ''user-1'') (profiles example_db) = Some example_profile
   \<and> TestUpdate_none\<lparr>tu_title := Some ''Renamed''\<rparr> \<noteq> TestUpdate_none
   \<and> ProfileUpdate_none\<lparr>pu_bio := Some ''Hello''\<rparr> \<noteq> ProfileUpdate_none
   \<and> update_test ''t1'' TestUpdate_none example_db =
        (get_test_by_id ''t1'' example_db, example_db)
   \<and> update_profile ''user-1'' ProfileUpdate_none example_db =
        (Some example_profile, example_db)
   \<and> list_all2 (\<lambda>r r'. if t_id r = ''t1''
                          then test_patched (TestUpdate_none\<lparr>tu_title := Some ''Renamed''\<rparr>) r r'
                          else r' = r)
        (tests example_db)
        (tests (snd (update_test ''t1'' (TestUpdate_none\<lparr>tu_title := Some ''Renamed''\<rparr>)
                       example_db)))
   \<and> list_all2 (\<lambda>r r'. if p_user_id r = ''user-1''
                          then profile_patched (ProfileUpdate_none\<lparr>pu_bio := Some ''Hello''\<rparr>)
                                 r r'
                          else r' = r)
        (profiles example_db)
        (profiles (snd (update_profile ''user-1'' (ProfileUpdate_none\<lparr>pu_bio := Some ''Hello''\<rparr>)
                          example_db)))"
proof -
  have t: "find (\<lambda>r. t_id r = ''t1'') (tests example_db) = Some example_test"
    by (simp add: example_db_def example_test_def)
  have p: "find (\<lambda>r. p_user_id r = ''user-1'') (profiles example_db) = Some example_profile"
    by (simp add: example_db_def example_profile_def)
  have tu: "TestUpdate_none\<lparr>tu_title := Some ''Renamed''\<rparr> \<noteq> TestUpdate_none"
    by (simp add: TestUpdate_none_def)
  have pu: "ProfileUpdate_none\<lparr>pu_bio := Some ''Hello''\<rparr> \<noteq> ProfileUpdate_none"
    by (simp add: ProfileUpdate_none_def)
  show ?thesis
    using partial_update_frame
            [where test_id = "''t1''" and db = example_db and test = example_test
               and user_id = "''user-1''" and profile = example_profile
               and test_update = "TestUpdate_none\<lparr>tu_title := Some ''Renamed''\<rparr>"
               and profile_update = "ProfileUpdate_none\<lparr>pu_bio := Some ''Hello''\<rparr>"]
      t p tu pu
    by blast
qed

theorem inactive_rows_and_lists_witness:
  "\<not> t_is_active example_test
   \<and> \<not> q_is_active example_theory_question
   \<and> \<not> p_is_active example_profile
   \<and> example_test \<in> set (tests example_db) \<and> distinct (map t_id (tests example_db))
   \<and> example_theory_question \<in> set (questions example_db)
   \<and> distinct (map q_id (questions example_db))
   \<and> example_profile \<in> set (profiles example_db)
   \<and> distinct (map p_user_id (profiles example_db))
   \<and> example_test \<notin> set (fst (get_all_tests 1 10 None None example_db))
   \<and> example_theory_question \<notin>
        question_row.truncate ` set (get_questions_by_test ''t1'' None example_db)
   \<and> example_profile \<notin>
        set (fst (get_all_profiles 1 10 (Some True) None None None example_db))
   \<and> snd (get_all_profiles 1 10 None None None None example_db) =
        length (profiles example_db)
   \<and> (\<exists>n. get_test_by_id (t_id example_test) example_db =
              Some (test_row.extend example_test \<lparr>question_count = Some n\<rparr>))
   \<and> (\<exists>v. get_question_by_id (q_id example_theory_question) example_db = Some v
            \<and> question_row.truncate v = example_theory_question)
   \<and> get_profile_by_user_id (p_user_id example_profile) example_db = Some example_profile"
proof -
  have t: "example_test \<in> set (tests example_db)" "\<not> t_is_active example_test"
    "distinct (map t_id (tests example_db))"
    by (simp_all add: example_db_def example_test_def)
  have q: "example_theory_question \<in> set (questions example_db)"
    "\<not> q_is_active example_theory_question" "distinct (map q_id (questions example_db))"
    by (simp_all add: example_db_def example_theory_question_def example_mcq_question_def
          example_coding_question_def)
  have p: "example_profile \<in> set (profiles example_db)" "\<not> p_is_active example_profile"
    "distinct (map p_user_id (profiles example_db))"
    by (simp_all add: example_db_def example_profile_def)
  show ?thesis
    using inactive_rows_and_lists
            [where test = example_test and question = example_theory_question
               and profile = example_profile and db = example_db
               and page = 1 and limit = 10 and is_published = None
               and created_by = None and test_id = "''t1''" and question_type = None
               and role = None and city = None and gender = None]
      t q p
    by blast
qed

section \<open>Questions: no ownership check on update and delete\<close>

lemma question_patched_set_cols:
  "question_patched u r (set_question_cols (QuestionUpdate_model_dump u) r)"
  by (simp add: question_patched_def set_question_cols_def QuestionUpdate_model_dump_def
        col_kept_or_set_def set_col_def split: option.splits)

lemma mcq_patched_set_cols: "mcq_patched u r (set_mcq_cols (MCQOptionUpdate_model_dump u) r)"
  by (simp add: mcq_patched_def set_mcq_cols_def MCQOptionUpdate_model_dump_def
        col_kept_or_set_def set_col_def set_null_col_def split: option.splits)

lemma theory_patched_set_cols:
  "theory_patched u r (set_theory_cols (TheoryDetailsUpdate_model_dump u) r)"
  by (simp add: theory_patched_def set_theory_cols_def TheoryDetailsUpdate_model_dump_def
        col_kept_or_set_def set_col_def set_null_col_def split: option.splits)

lemma coding_patched_set_cols:
  "coding_patched u r (set_coding_cols (CodingDetailsUpdate_model_dump u) r)"
  by (simp add: coding_patched_def set_coding_cols_def CodingDetailsUpdate_model_dump_def
        col_kept_or_set_def set_col_def set_null_col_def split: option.splits)

lemma set_question_cols_empty: "set_question_cols empty_question_data r = r"
  by (simp add: set_question_cols_def empty_question_data_def set_col_def)

lemma set_mcq_cols_empty: "set_mcq_cols empty_mcq_data r = r"
  by (simp add: set_mcq_cols_def empty_mcq_data_def set_col_def set_null_col_def)

lemma set_theory_cols_empty: "set_theory_cols empty_theory_data r = r"
  by (simp add: set_theory_cols_def empty_theory_data_def set_col_def set_null_col_def)

lemma set_coding_cols_empty: "set_coding_cols empty_coding_data r = r"
  by (simp add: set_coding_cols_def empty_coding_data_def set_col_def set_null_col_def)

lemma map_if_same: "map (\<lambda>r. if P r then r else r) xs = xs"
  by (induction xs) auto

lemma update_question_store:
  "snd (update_question question_id u db) =
     db\<lparr>questions := map (\<lambda>r. if q_id r = question_id
                 then set_question_cols (QuestionUpdate_model_dump u) r else r)
               (questions db)\<rparr>"
proof (cases "QuestionUpdate_model_dump u = empty_question_data")
  case True
  show ?thesis
    by (simp add: True update_question_def Let_def update_q_def str_uuid_def
        set_question_cols_empty map_if_same split: prod.splits cong: if_cong)
next
  case False
  then show ?thesis
    by (simp add: update_question_def Let_def update_q_def str_uuid_def
        set_question_cols_empty split: prod.splits)
qed

lemma update_question_result:
  assumes "find (\<lambda>r. q_id r = question_id) (questions db) = Some question"
  shows "fst (update_question question_id u db) =
     get_question_by_id question_id (snd (update_question question_id u db))"
proof (cases "QuestionUpdate_model_dump u = empty_question_data")
  case True
  show ?thesis
    by (simp add: True update_question_def)
next
  case False
  then show ?thesis
    using find_Some_filter_nonempty [OF assms]
    by (simp add: update_question_def Let_def update_q_def str_uuid_def split: prod.splits)
qed

lemma update_mcq_options_eval:
  "update_mcq_options question_id u db =
     (let db' = db\<lparr>mcq_options := map (\<lambda>r. if o_question_id r = question_id
                 then set_mcq_cols (MCQOptionUpdate_model_dump u) r else r)
               (mcq_options db)\<rparr>
      in (get_question_by_id question_id db', db'))"
proof (cases "MCQOptionUpdate_model_dump u = empty_mcq_data")
  case True
  show ?thesis
    by (simp add: True update_mcq_options_def Let_def update_q_def str_uuid_def
        set_mcq_cols_empty map_if_same cong: if_cong)
next
  case False
  then show ?thesis
    by (simp add: update_mcq_options_def Let_def update_q_def str_uuid_def
        set_mcq_cols_empty)
qed

lemma update_theory_details_eval:
  "update_theory_details question_id u db =
     (let db' = db\<lparr>theory_details := map (\<lambda>r. if th_question_id r = question_id
                 then set_theory_cols (TheoryDetailsUpdate_model_dump u) r else r)
               (theory_details db)\<rparr>
      in (get_question_by_id question_id db', db'))"
proof (cases "TheoryDetailsUpdate_model_dump u = empty_theory_data")
  case True
  show ?thesis
    by (simp add: True update_theory_details_def Let_def update_q_def str_uuid_def
        set_theory_cols_empty map_if_same cong: if_cong)
next
  case False
  then show ?thesis
    by (simp add: update_theory_details_def Let_def update_q_def str_uuid_def
        set_theory_cols_empty)
qed

lemma update_coding_details_eval:
  "update_coding_details question_id u db =
     (let db' = db\<lparr>coding_details := map (\<lambda>r. if cd_question_id r = question_id
                 then set_coding_cols (CodingDetailsUpdate_model_dump u) r else r)
               (coding_details db)\<rparr>
      in (get_question_by_id question_id db', db'))"
proof (cases "CodingDetailsUpdate_model_dump u = empty_coding_data")
  case True
  show ?thesis
    by (simp add: True update_coding_details_def Let_def update_q_def str_uuid_def
        set_coding_cols_empty map_if_same cong: if_cong)
next
  case False
  then show ?thesis
    by (simp add: update_coding_details_def Let_def update_q_def str_uuid_def
        set_coding_cols_empty)
qed


lemma find_map_patched:
  assumes "find P xs = Some x" and "\<And>r. P r \<Longrightarrow> P (f r)"
  shows "find P (map (\<lambda>r. if P r then f r else r) xs) = Some (f x)"
  using assms by (simp add: find_map_update)

text \<open>
  C9. The handlers of question update (base data, MCQ options, theory details, coding
  details) and of question delete read nothing of the principal but its role: for two
  institutions their answer and the store they leave are the same, whoever created the test
  that owns the question. For a question that exists, the base update succeeds, answers
  with the question as it is afterwards, and leaves a store in which only the table
  \<open>questions\<close> differs and there only the rows with the id, each column kept or set as the
  payload says; the delete succeeds and leaves those rows inactive; the detail update of
  the question's own type succeeds and changes the detail rows of the question, and
  nothing else, in the same way.
\<close>

theorem question_routes_ignore_principal_id:
  assumes "u_role a = ''institution''" and "u_role b = ''institution''"
      and "find (\<lambda>r. q_id r = question_id) (questions db) = Some question"
  shows "route_update_question question_id base_update a db =
           route_update_question question_id base_update b db
       \<and> route_update_mcq_options question_id mcq_update a db =
           route_update_mcq_options question_id mcq_update b db
       \<and> route_update_theory_details question_id theory_update a db =
           route_update_theory_details question_id theory_update b db
       \<and> route_update_coding_details question_id coding_update a db =
           route_update_coding_details question_id coding_update b db
       \<and> route_delete_question question_id a db = route_delete_question question_id b db
       \<and> (\<exists>resp db'. route_update_question question_id base_update a db = (Inr resp, db')
              \<and> success resp
              \<and> api_data resp = map_option QuestionData (get_question_by_id question_id db')
              \<and> db' = db\<lparr>questions := questions db'\<rparr>
              \<and> list_all2 (\<lambda>r r'. if q_id r = question_id
                                     then question_patched base_update r r' else r' = r)
                   (questions db) (questions db')
              \<and> (\<exists>question'. find (\<lambda>r. q_id r = question_id) (questions db') = Some question'
                     \<and> question_patched base_update question question'))
       \<and> (\<exists>resp db'. route_delete_question question_id a db = (Inr resp, db')
              \<and> success resp
              \<and> db' = db\<lparr>questions := questions db'\<rparr>
              \<and> list_all2 (\<lambda>r r'. if q_id r = question_id
                                     then r' = r\<lparr>q_is_active := False\<rparr> else r' = r)
                   (questions db) (questions db')
              \<and> find (\<lambda>r. q_id r = question_id) (questions db') =
                  Some (question\<lparr>q_is_active := False\<rparr>))
       \<and> (q_question_type question = ''mcq'' \<longrightarrow>
            (\<exists>resp db'. route_update_mcq_options question_id mcq_update a db = (Inr resp, db')
               \<and> success resp
               \<and> api_data resp = map_option QuestionData (get_question_by_id question_id db')
               \<and> db' = db\<lparr>mcq_options := mcq_options db'\<rparr>
               \<and> list_all2 (\<lambda>r r'. if o_question_id r = question_id
                                      then mcq_patched mcq_update r r' else r' = r)
                    (mcq_options db) (mcq_options db')))
       \<and> (q_question_type question = ''theory'' \<longrightarrow>
            (\<exists>resp db'. route_update_theory_details question_id theory_update a db =
                          (Inr resp, db')
               \<and> success resp
               \<and> api_data resp = map_option QuestionData (get_question_by_id question_id db')
               \<and> db' = db\<lparr>theory_details := theory_details db'\<rparr>
               \<and> list_all2 (\<lambda>r r'. if th_question_id r = question_id
                                      then theory_patched theory_update r r' else r' = r)
                    (theory_details db) (theory_details db')))
       \<and> (q_question_type question = ''coding'' \<longrightarrow>
            (\<exists>resp db'. route_update_coding_details question_id coding_update a db =
                          (Inr resp, db')
               \<and> success resp
               \<and> api_data resp = map_option QuestionData (get_question_by_id question_id db')
               \<and> db' = db\<lparr>coding_details := coding_details db'\<rparr>
               \<and> list_all2 (\<lambda>r r'. if cd_question_id r = question_id
                                      then coding_patched coding_update r r' else r' = r)
                    (coding_details db) (coding_details db')))"
proof -
  have indep: "route_update_question question_id base_update a db =
           route_update_question question_id base_update b db
       \<and> route_update_mcq_options question_id mcq_update a db =
           route_update_mcq_options question_id mcq_update b db
       \<and> route_update_theory_details question_id theory_update a db =
           route_update_theory_details question_id theory_update b db
       \<and> route_update_coding_details question_id coding_update a db =
           route_update_coding_details question_id coding_update b db
       \<and> route_delete_question question_id a db = route_delete_question question_id b db"
    using assms(1,2)
    by (simp add: route_update_question_def route_update_mcq_options_def
          route_update_theory_details_def route_update_coding_details_def
          route_delete_question_def require_role_def)
  have got: "get_question_by_id question_id db = Some (with_details question_id question db)"
    using assms(3) by (simp add: get_question_by_id_find)
  have ty: "q_question_type (with_details question_id question db) = q_question_type question"
    by (simp add: with_details_def question_dict_def question_row.defs split: list.splits)
  have route_upd: "route_update_question question_id base_update a db =
      (Inr \<lparr>success = True, message = ''Question updated!'',
            api_data = map_option QuestionData
              (get_question_by_id question_id (snd (update_question question_id base_update db)))\<rparr>,
       snd (update_question question_id base_update db))"
    using assms(1) got update_question_result [OF assms(3), of base_update]
    by (auto simp: route_update_question_def require_role_def split: prod.splits)
  have keep_q: "\<And>r. q_id r = question_id \<Longrightarrow>
      q_id (set_question_cols (QuestionUpdate_model_dump base_update) r) = question_id"
    by (simp add: set_question_cols_def)
  have upd: "\<exists>resp db'. route_update_question question_id base_update a db = (Inr resp, db')
              \<and> success resp
              \<and> api_data resp = map_option QuestionData (get_question_by_id question_id db')
              \<and> db' = db\<lparr>questions := questions db'\<rparr>
              \<and> list_all2 (\<lambda>r r'. if q_id r = question_id
                                     then question_patched base_update r r' else r' = r)
                   (questions db) (questions db')
              \<and> (\<exists>question'. find (\<lambda>r. q_id r = question_id) (questions db') = Some question'
                     \<and> question_patched base_update question question')"
    using find_map_patched [OF assms(3), of "set_question_cols (QuestionUpdate_model_dump base_update)"]
      keep_q
    by (simp add: route_upd update_question_store list_all2_map_if question_patched_set_cols)
  have keep: "\<And>r. q_id r = question_id \<Longrightarrow> q_id (r\<lparr>q_is_active := False\<rparr>) = question_id"
    by simp
  have del: "\<exists>resp db'. route_delete_question question_id a db = (Inr resp, db')
              \<and> success resp
              \<and> db' = db\<lparr>questions := questions db'\<rparr>
              \<and> list_all2 (\<lambda>r r'. if q_id r = question_id
                                     then r' = r\<lparr>q_is_active := False\<rparr> else r' = r)
                   (questions db) (questions db')
              \<and> find (\<lambda>r. q_id r = question_id) (questions db') =
                  Some (question\<lparr>q_is_active := False\<rparr>)"
    using assms(1,3) got find_Some_filter_nonempty [OF assms(3)]
    by (simp add: route_delete_question_def require_role_def delete_question_eval
          find_map_update [where P = "\<lambda>r. q_id r = question_id"] list_all2_map_if)
  have mcq: "\<exists>resp db'. route_update_mcq_options question_id mcq_update a db = (Inr resp, db')
               \<and> success resp
               \<and> api_data resp = map_option QuestionData (get_question_by_id question_id db')
               \<and> db' = db\<lparr>mcq_options := mcq_options db'\<rparr>
               \<and> list_all2 (\<lambda>r r'. if o_question_id r = question_id
                                      then mcq_patched mcq_update r r' else r' = r)
                    (mcq_options db) (mcq_options db')"
    if "q_question_type question = ''mcq''"
    using assms(1) got ty that
    by (simp add: route_update_mcq_options_def require_role_def update_mcq_options_eval
          Let_def list_all2_map_if mcq_patched_set_cols)
  have th: "\<exists>resp db'. route_update_theory_details question_id theory_update a db =
                          (Inr resp, db')
               \<and> success resp
               \<and> api_data resp = map_option QuestionData (get_question_by_id question_id db')
               \<and> db' = db\<lparr>theory_details := theory_details db'\<rparr>
               \<and> list_all2 (\<lambda>r r'. if th_question_id r = question_id
                                      then theory_patched theory_update r r' else r' = r)
                    (theory_details db) (theory_details db')"
    if "q_question_type question = ''theory''"
    using assms(1) got ty that
    by (simp add: route_update_theory_details_def require_role_def update_theory_details_eval
          Let_def list_all2_map_if theory_patched_set_cols)
  have co: "\<exists>resp db'. route_update_coding_details question_id coding_update a db =
                          (Inr resp, db')
               \<and> success resp
               \<and> api_data resp = map_option QuestionData (get_question_by_id question_id db')
               \<and> db' = db\<lparr>coding_details := coding_details db'\<rparr>
               \<and> list_all2 (\<lambda>r r'. if cd_question_id r = question_id
                                      then coding_patched coding_update r r' else r' = r)
                    (coding_details db) (coding_details db')"
    if "q_question_type question = ''coding''"
    using assms(1) got ty that
    by (simp add: route_update_coding_details_def require_role_def update_coding_details_eval
          Let_def list_all2_map_if coding_patched_set_cols)
  show ?thesis using indep upd del mcq th co by blast
qed


lemma route_update_question_store:
  assumes "u_role a = ''institution''"
      and "find (\<lambda>r. q_id r = question_id) (questions db) = Some question"
  shows "snd (route_update_question question_id u a db) =
           snd (update_question question_id u db)"
  using assms
  by (auto simp: route_update_question_def require_role_def get_question_by_id_find
        split: prod.splits)

theorem question_routes_ignore_principal_id_witness:
  "u_role institution_b = ''institution'' \<and> u_role institution_a = ''institution''
   \<and> find (\<lambda>r. q_id r = ''q1'') (questions example_db) = Some example_mcq_question
   \<and> find (\<lambda>r. q_id r = ''q2'') (questions example_db) = Some example_theory_question
   \<and> find (\<lambda>r. q_id r = ''q3'') (questions example_db) = Some example_coding_question
   \<and> q_question_type example_mcq_question = ''mcq''
   \<and> q_question_type example_theory_question = ''theory''
   \<and> q_question_type example_coding_question = ''coding''
   \<and> q_test_id example_mcq_question = t_id example_test
   \<and> t_created_by example_test = Some (u_id institution_a)
   \<and> u_id institution_b \<noteq> u_id institution_a
   \<and> route_update_question ''q1'' example_question_update institution_b example_db =
       route_update_question ''q1'' example_question_update institution_a example_db
   \<and> route_delete_question ''q1'' institution_b example_db =
       route_delete_question ''q1'' institution_a example_db
   \<and> questions (snd (route_update_question ''q1'' example_question_update institution_b
                        example_db)) =
       [example_mcq_question\<lparr>q_marks := 3\<rparr>, example_theory_question,
        example_coding_question]
   \<and> questions (snd (route_delete_question ''q1'' institution_b example_db)) =
       [example_mcq_question\<lparr>q_is_active := False\<rparr>, example_theory_question,
        example_coding_question]
   \<and> mcq_options (snd (route_update_mcq_options ''q1'' example_options_update institution_b
                          example_db)) =
       [example_options\<lparr>o_option_a := ''Ruby'', o_correct_option := ''b''\<rparr>]
   \<and> theory_details (snd (route_update_theory_details ''q2'' example_theory_update
                             institution_b example_db)) =
       [example_theory_details\<lparr>th_word_limit := 300\<rparr>]
   \<and> coding_details (snd (route_update_coding_details ''q3'' example_coding_update
                             institution_b example_db)) =
       [example_coding_details\<lparr>cd_programming_language := ''java''\<rparr>]
   \<and> (\<exists>resp db'. route_update_question ''q1'' example_question_update institution_b
                     example_db = (Inr resp, db') \<and> success resp
          \<and> list_all2 (\<lambda>r r'. if q_id r = ''q1''
                                 then question_patched example_question_update r r'
                                 else r' = r)
               (questions example_db) (questions db'))
   \<and> (\<exists>resp db'. route_update_mcq_options ''q1'' example_options_update institution_b
                     example_db = (Inr resp, db') \<and> success resp
          \<and> list_all2 (\<lambda>r r'. if o_question_id r = ''q1''
                                 then mcq_patched example_options_update r r' else r' = r)
               (mcq_options example_db) (mcq_options db'))
   \<and> (\<exists>resp db'. route_update_theory_details ''q2'' example_theory_update institution_b
                     example_db = (Inr resp, db') \<and> success resp
          \<and> list_all2 (\<lambda>r r'. if th_question_id r = ''q2''
                                 then theory_patched example_theory_update r r' else r' = r)
               (theory_details example_db) (theory_details db'))
   \<and> (\<exists>resp db'. route_update_coding_details ''q3'' example_coding_update institution_b
                     example_db = (Inr resp, db') \<and> success resp
          \<and> list_all2 (\<lambda>r r'. if cd_question_id r = ''q3''
                                 then coding_patched example_coding_update r r' else r' = r)
               (coding_details example_db) (coding_details db'))"
proof -
  have b: "u_role institution_b = ''institution''"
    by (simp add: institution_b_def)
  have a: "u_role institution_a = ''institution''"
    by (simp add: institution_a_def)
  have q1: "find (\<lambda>r. q_id r = ''q1'') (questions example_db) = Some example_mcq_question"
    by (simp add: example_db_def example_mcq_question_def)
  have q2: "find (\<lambda>r. q_id r = ''q2'') (questions example_db) = Some example_theory_question"
    by (simp add: example_db_def example_mcq_question_def example_theory_question_def)
  have q3: "find (\<lambda>r. q_id r = ''q3'') (questions example_db) = Some example_coding_question"
    by (simp add: example_db_def example_mcq_question_def example_theory_question_def
          example_coding_question_def)
  have ty: "q_question_type example_mcq_question = ''mcq''"
    "q_question_type example_theory_question = ''theory''"
    "q_question_type example_coding_question = ''coding''"
    by (simp_all add: example_mcq_question_def example_theory_question_def
          example_coding_question_def)
  have other: "q_test_id example_mcq_question = t_id example_test
     \<and> t_created_by example_test = Some (u_id institution_a)
     \<and> u_id institution_b \<noteq> u_id institution_a"
    by (simp add: example_mcq_question_def example_test_def institution_a_def
          institution_b_def)
  have g1: "get_question_by_id ''q1'' example_db =
              Some (with_details ''q1'' example_mcq_question example_db)"
    by (simp add: get_question_by_id_find q1)
  have g2: "get_question_by_id ''q2'' example_db =
              Some (with_details ''q2'' example_theory_question example_db)"
    by (simp add: get_question_by_id_find q2)
  have g3: "get_question_by_id ''q3'' example_db =
              Some (with_details ''q3'' example_coding_question example_db)"
    by (simp add: get_question_by_id_find q3)
  have wty: "q_question_type (with_details i q d) = q_question_type q" for i q d
    by (simp add: with_details_def question_dict_def question_row.defs split: list.splits)
  have s1: "questions (snd (route_update_question ''q1'' example_question_update
                              institution_b example_db)) =
       [example_mcq_question\<lparr>q_marks := 3\<rparr>, example_theory_question,
        example_coding_question]"
    by (simp add: route_update_question_store [OF b q1] update_question_store)
       (simp add: example_db_def example_mcq_question_def example_theory_question_def
          example_coding_question_def example_question_update_def
          QuestionUpdate_model_dump_def set_question_cols_def set_col_def)
  have s2: "questions (snd (route_delete_question ''q1'' institution_b example_db)) =
       [example_mcq_question\<lparr>q_is_active := False\<rparr>, example_theory_question,
        example_coding_question]"
    using b g1
    by (simp add: route_delete_question_def require_role_def delete_question_eval)
       (simp add: example_db_def example_mcq_question_def example_theory_question_def
          example_coding_question_def)
  have s3: "mcq_options (snd (route_update_mcq_options ''q1'' example_options_update
                                institution_b example_db)) =
       [example_options\<lparr>o_option_a := ''Ruby'', o_correct_option := ''b''\<rparr>]"
    using b g1 ty(1)
    by (simp add: route_update_mcq_options_def require_role_def update_mcq_options_eval
          wty Let_def)
       (simp add: example_db_def example_options_def example_options_update_def
          MCQOptionUpdate_model_dump_def set_mcq_cols_def set_col_def set_null_col_def)
  have s4: "theory_details (snd (route_update_theory_details ''q2'' example_theory_update
                             institution_b example_db)) =
       [example_theory_details\<lparr>th_word_limit := 300\<rparr>]"
    using b g2 ty(2)
    by (simp add: route_update_theory_details_def require_role_def
          update_theory_details_eval wty Let_def)
       (simp add: example_db_def example_theory_details_def example_theory_update_def
          TheoryDetailsUpdate_model_dump_def set_theory_cols_def set_col_def
          set_null_col_def)
  have s5: "coding_details (snd (route_update_coding_details ''q3'' example_coding_update
                             institution_b example_db)) =
       [example_coding_details\<lparr>cd_programming_language := ''java''\<rparr>]"
    using b g3 ty(3)
    by (simp add: route_update_coding_details_def require_role_def
          update_coding_details_eval wty Let_def)
       (simp add: example_db_def example_coding_details_def example_coding_update_def
          CodingDetailsUpdate_model_dump_def set_coding_cols_def set_col_def
          set_null_col_def)
  show ?thesis
    using question_routes_ignore_principal_id
            [OF b a q1, where base_update = example_question_update
               and mcq_update = example_options_update
               and theory_update = example_theory_update
               and coding_update = example_coding_update]
          question_routes_ignore_principal_id
            [OF b a q2, where base_update = example_question_update
               and mcq_update = example_options_update
               and theory_update = example_theory_update
               and coding_update = example_coding_update]
          question_routes_ignore_principal_id
            [OF b a q3, where base_update = example_question_update
               and mcq_update = example_options_update
               and theory_update = example_theory_update
               and coding_update = example_coding_update]
      a b q1 q2 q3 ty other s1 s2 s3 s4 s5
    by blast
qed

end
